theory Spec2Isabelle
  imports Main "HOL-Library.Log_Nat"
begin

section \<open>Data model\<close>

text \<open>
  The repository is an Express application over Mongoose models. A collection is modelled
  as the list of its documents in insertion order, every document carrying its \<open>_id\<close>
  (field \<open>ident\<close>). Identifiers are well-formed ObjectIds; timestamps and the
  expansion of references in responses (populate) are read-path decoration and are left out.
  A string is the list of its characters, and the length bounds of a schema count the
  elements of that list.
\<close>

type_synonym ObjectId = nat

record Document =
  ident :: ObjectId

text \<open>The User schema (second model of src/unnamed/part_000).\<close>

record User = Document +
  username :: string
  email :: string
  password :: string
  avatar :: string
  bio :: string
  githubProfile :: string
  portfolio :: string

text \<open>
  The Project schema (first model of src/unnamed/part_000): \<open>likesCount\<close> and
  \<open>commentsCount\<close> are Numbers defaulting to 0.
\<close>

record Project = Document +
  title :: string
  description :: string
  image :: string
  githubUrl :: string
  liveUrl :: "string option"
  tags :: "string list"
  author :: ObjectId
  likes :: "ObjectId list"
  likesCount :: int
  commentsCount :: int

text \<open>
  Modelled from the spec: the Comment schema (models/Comment.js is not among the sources).
  The specification gives a Comment its content, author reference, project reference,
  optional parent-comment reference, reply references, liker references and a
  \<open>likesCount\<close> derived from the liker set; the routes read and write exactly the
  paths \<open>content\<close>, \<open>author\<close>, \<open>project\<close>, \<open>parentComment\<close>, \<open>replies\<close>, \<open>likes\<close>
  and \<open>likesCount\<close>.
\<close>

record Comment = Document +
  content :: string
  author :: ObjectId
  project :: ObjectId
  parentComment :: "ObjectId option"
  replies :: "ObjectId list"
  likes :: "ObjectId list"
  likesCount :: int

record Database =
  users :: "User list"
  projects :: "Project list"
  comments :: "Comment list"

text \<open>
  The responses of the routes. Every failing branch of a handler is one constructor:
  the 400 with the list of violations, the 404 with its message, the 403, the 400 sent for
  a taken username (the Conflict of the specification) and the 500 of the catch block.
\<close>

datatype error =
    ValidationFailed "string list"
  | NotFound string
  | NotAuthorized
  | UsernameTaken
  | ServerError

fun status :: "error \<Rightarrow> nat" where
  "status (ValidationFailed es) = 400"
| "status (NotFound m) = 404"
| "status NotAuthorized = 403"
| "status UsernameTaken = 400"
| "status ServerError = 500"

fun message :: "error \<Rightarrow> string" where
  "message (ValidationFailed es) = ''''"
| "message (NotFound m) = m"
| "message NotAuthorized = ''Not authorized''"
| "message UsernameTaken = ''Username already taken''"
| "message ServerError = ''Server error''"

record LikeResponse =
  liked :: bool
  likesCount :: int

section \<open>Numbers\<close>

text \<open>
  A schema path of type Number holds an IEEE double. The counters hold integers, and the
  model keeps the integer value of the double. Every integer of magnitude up to
  \<open>2 ^ 53\<close> is a double; a larger one is rounded to 53 significant bits, to the nearest
  double and to the even one of two equally near. \<open>$inc\<close> adds in doubles, so the sum is
  rounded; the sum of a double and the small integers the routes add never rounds past
  the largest double. Fractional values and infinities are not counts and are outside the
  model.
\<close>

definition round_double :: "int \<Rightarrow> int" where
  "round_double n =
     (if \<bar>n\<bar> \<le> 2 ^ 53 then n
      else let a = \<bar>n\<bar>;
               k = nat (bitlen a - 53);
               q = a div 2 ^ k;
               r = a mod 2 ^ k;
               h = 2 ^ (k - 1);
               q' = (if h < r \<or> (r = h \<and> odd q) then q + 1 else q)
           in sgn n * (q' * 2 ^ k))"

definition inc_Number :: "int \<Rightarrow> int \<Rightarrow> int" where
  "inc_Number x d = round_double (x + d)"

section \<open>The persistence layer\<close>

text \<open>
  The Mongoose calls the routes make. \<open>findById\<close>, \<open>findOne\<close>, \<open>findByIdAndUpdate\<close> and
  \<open>findByIdAndDelete\<close> act on the first matching document; \<open>deleteMany\<close> and
  \<open>countDocuments\<close> on all of them. An insert of an \<open>_id\<close> that is already stored is
  refused by the unique index (the handler's catch block answers 500).
\<close>

definition findOne :: "('a \<Rightarrow> bool) \<Rightarrow> 'a list \<Rightarrow> 'a option" where
  "findOne q xs = find q xs"

definition findById :: "ObjectId \<Rightarrow> 'a Document_scheme list \<Rightarrow> 'a Document_scheme option" where
  "findById i xs = findOne (\<lambda>d. ident d = i) xs"

fun updateOne :: "('a \<Rightarrow> bool) \<Rightarrow> ('a \<Rightarrow> 'a) \<Rightarrow> 'a list \<Rightarrow> 'a list" where
  "updateOne q f [] = []"
| "updateOne q f (x # xs) = (if q x then f x # xs else x # updateOne q f xs)"

definition findByIdAndUpdate ::
  "ObjectId \<Rightarrow> ('a Document_scheme \<Rightarrow> 'a Document_scheme) \<Rightarrow> 'a Document_scheme list
     \<Rightarrow> 'a Document_scheme list" where
  "findByIdAndUpdate i f xs = updateOne (\<lambda>d. ident d = i) f xs"

fun deleteOne :: "('a \<Rightarrow> bool) \<Rightarrow> 'a list \<Rightarrow> 'a list" where
  "deleteOne q [] = []"
| "deleteOne q (x # xs) = (if q x then xs else x # deleteOne q xs)"

definition findByIdAndDelete :: "ObjectId \<Rightarrow> 'a Document_scheme list \<Rightarrow> 'a Document_scheme list" where
  "findByIdAndDelete i xs = deleteOne (\<lambda>d. ident d = i) xs"

definition deleteMany :: "('a \<Rightarrow> bool) \<Rightarrow> 'a list \<Rightarrow> 'a list" where
  "deleteMany q xs = filter (\<lambda>d. \<not> q d) xs"

definition countDocuments :: "('a \<Rightarrow> bool) \<Rightarrow> 'a list \<Rightarrow> nat" where
  "countDocuments q xs = length (filter q xs)"

definition insertOne :: "'a Document_scheme \<Rightarrow> 'a Document_scheme list \<Rightarrow> 'a Document_scheme list option" where
  "insertOne d xs = (if findById (ident d) xs = None then Some (xs @ [d]) else None)"

text \<open>
  \<open>doc.save()\<close> on a document that was loaded by \<open>findById\<close>: the stored document with
  that \<open>_id\<close> takes the loaded document's paths.
\<close>

definition saveLoaded :: "'a Document_scheme \<Rightarrow> 'a Document_scheme list \<Rightarrow> 'a Document_scheme list" where
  "saveLoaded d xs = findByIdAndUpdate (ident d) (\<lambda>_. d) xs"

section \<open>Save hooks\<close>

text \<open>\<open>projectSchema.pre("save")\<close>: \<open>this.likesCount = this.likes.length\<close>.\<close>

definition pre_save_Project :: "Project \<Rightarrow> Project" where
  "pre_save_Project p = p\<lparr>Project.likesCount := int (length (Project.likes p))\<rparr>"

text \<open>
  Validation on save. \<open>doc.save()\<close> first runs the validators of the schema on the loaded
  document and throws when one fails, before any hook runs and before anything is written.
  The Project schema requires \<open>title\<close>, \<open>description\<close>, \<open>image\<close> and \<open>githubUrl\<close> (an
  empty, null or missing string fails \<open>required\<close>; all three are the empty string here)
  and bounds \<open>title\<close> by 100 and \<open>description\<close> by 1000 characters. The update route
  writes without validation, so a stored project need not pass.
\<close>

definition validate_Project :: "Project \<Rightarrow> bool" where
  "validate_Project p \<longleftrightarrow>
     title p \<noteq> [] \<and> length (title p) \<le> 100
     \<and> description p \<noteq> [] \<and> length (description p) \<le> 1000
     \<and> image p \<noteq> [] \<and> githubUrl p \<noteq> []"

text \<open>
  Modelled from the spec: the save hook of the Comment model (models/Comment.js is not
  among the sources). The specification makes the like toggle of a Comment symmetric to
  the one of a Project: \<open>likesCount\<close> is set to the size of the liker set as part of the
  same save.
\<close>

definition pre_save_Comment :: "Comment \<Rightarrow> Comment" where
  "pre_save_Comment c = c\<lparr>Comment.likesCount := int (length (Comment.likes c))\<rparr>"

section \<open>Like toggles\<close>

text \<open>
  The projects router (src/unnamed/part_001), \<open>router.post("/:id/like")\<close>; \<open>u\<close> is
  \<open>req.user._id\<close>, \<open>i\<close> is \<open>req.params.id\<close>. \<open>likes.includes\<close> decides (on a Mongoose
  array it compares ObjectIds by value); unlike filters every occurrence out, like pushes
  at the end; \<open>project.save()\<close> validates the document (a failure is thrown to the catch
  block, which answers 500), runs the hook and writes the document once, and the response
  reads \<open>likesCount\<close> from the saved document.
\<close>

definition like_Project :: "ObjectId \<Rightarrow> ObjectId \<Rightarrow> Database \<Rightarrow> (error + LikeResponse) \<times> Database" where
  "like_Project u i db =
     (case findById i (projects db) of
        None \<Rightarrow> (Inl (NotFound ''Project not found''), db)
      | Some doc \<Rightarrow>
          let userLiked = (u \<in> set (Project.likes doc));
              doc' = (if userLiked
                      then doc\<lparr>Project.likes := filter (\<lambda>x. x \<noteq> u) (Project.likes doc)\<rparr>
                      else doc\<lparr>Project.likes := Project.likes doc @ [u]\<rparr>)
          in if \<not> validate_Project doc' then (Inl ServerError, db)
             else let saved = pre_save_Project doc'
                  in (Inr \<lparr>liked = \<not> userLiked, likesCount = Project.likesCount saved\<rparr>,
                      db\<lparr>projects := saveLoaded saved (projects db)\<rparr>))"

text \<open>
  The comments router (src/unnamed/part_002), \<open>router.post('/:id/like')\<close>: the same steps
  on a Comment. The Comment schema is not among the sources and the model gives it no
  validator that a stored comment could fail: comments are written only by the create and
  update routes, whose validator chains bound the content.
\<close>

definition like_Comment :: "ObjectId \<Rightarrow> ObjectId \<Rightarrow> Database \<Rightarrow> (error + LikeResponse) \<times> Database" where
  "like_Comment u i db =
     (case findById i (comments db) of
        None \<Rightarrow> (Inl (NotFound ''Comment not found''), db)
      | Some doc \<Rightarrow>
          let userLiked = (u \<in> set (Comment.likes doc));
              doc' = (if userLiked
                      then doc\<lparr>Comment.likes := filter (\<lambda>x. x \<noteq> u) (Comment.likes doc)\<rparr>
                      else doc\<lparr>Comment.likes := Comment.likes doc @ [u]\<rparr>);
              saved = pre_save_Comment doc'
          in (Inr \<lparr>liked = \<not> userLiked, likesCount = Comment.likesCount saved\<rparr>,
              db\<lparr>comments := saveLoaded saved (comments db)\<rparr>))"

text \<open>A run of toggles on one project, one per user of the list, in order.\<close>

fun like_Project_each :: "ObjectId list \<Rightarrow> ObjectId \<Rightarrow> Database \<Rightarrow> Database" where
  "like_Project_each [] i db = db"
| "like_Project_each (u # us) i db = like_Project_each us i (snd (like_Project u i db))"

section \<open>Comment routes\<close>

text \<open>
  The comments router, src/unnamed/part_002. Every handler that validates receives the
  violations found by the validator chain (\<open>validationResult(req)\<close>) as \<open>errors\<close> and
  the sanitised body fields; the operation of the specification is what runs when there
  are none. \<open>u\<close> is \<open>req.user._id\<close>.

  \<open>router.post('/')\<close>: \<open>new_id\<close> is the \<open>_id\<close> that \<open>new Comment\<close> generates. The
  document is built with \<open>parentComment: parentCommentId || null\<close> and the schema defaults,
  saved, pushed onto the parent's \<open>replies\<close> when a parent was given, and the project's
  \<open>commentsCount\<close> is incremented by \<open>$inc\<close>.
\<close>

definition create_Comment ::
  "string list \<Rightarrow> ObjectId \<Rightarrow> ObjectId \<Rightarrow> string \<Rightarrow> ObjectId \<Rightarrow> ObjectId option \<Rightarrow> Database
     \<Rightarrow> (error + Comment) \<times> Database" where
  "create_Comment errors u new_id b_content projectId parentCommentId db =
     (if errors \<noteq> [] then (Inl (ValidationFailed errors), db)
      else case findById projectId (projects db) of
        None \<Rightarrow> (Inl (NotFound ''Project not found''), db)
      | Some proj \<Rightarrow>
          (case (case parentCommentId of
                   None \<Rightarrow> None
                 | Some pc \<Rightarrow> (case findById pc (comments db) of
                                None \<Rightarrow> Some (NotFound ''Parent comment not found'')
                              | Some parent \<Rightarrow> None)) of
             Some e \<Rightarrow> (Inl e, db)
           | None \<Rightarrow>
               let doc = pre_save_Comment
                     \<lparr>ident = new_id, content = b_content, author = u, project = projectId,
                      parentComment = parentCommentId, replies = [], likes = [], likesCount = 0\<rparr>
               in (case insertOne doc (comments db) of
                     None \<Rightarrow> (Inl ServerError, db)
                   | Some cs \<Rightarrow>
                       let cs' = (case parentCommentId of
                                    None \<Rightarrow> cs
                                  | Some pc \<Rightarrow>
                                      findByIdAndUpdate pc
                                        (\<lambda>c. c\<lparr>replies := replies c @ [new_id]\<rparr>) cs);
                           ps' = findByIdAndUpdate projectId
                                   (\<lambda>p. p\<lparr>commentsCount := inc_Number (commentsCount p) 1\<rparr>)
                                   (projects db)
                       in (Inr doc, db\<lparr>projects := ps', comments := cs'\<rparr>))))"

text \<open>\<open>router.put('/:id')\<close>: only the author may change the content; the document is saved.\<close>

definition update_Comment ::
  "string list \<Rightarrow> ObjectId \<Rightarrow> ObjectId \<Rightarrow> string \<Rightarrow> Database \<Rightarrow> (error + Comment) \<times> Database" where
  "update_Comment errors u i b_content db =
     (if errors \<noteq> [] then (Inl (ValidationFailed errors), db)
      else case findById i (comments db) of
        None \<Rightarrow> (Inl (NotFound ''Comment not found''), db)
      | Some doc \<Rightarrow>
          if Comment.author doc \<noteq> u then (Inl NotAuthorized, db)
          else let saved = pre_save_Comment (doc\<lparr>content := b_content\<rparr>)
               in (Inr saved, db\<lparr>comments := saveLoaded saved (comments db)\<rparr>))"

text \<open>
  \<open>router.delete('/:id')\<close>, in the order of the source: delete the replies, pull the
  identifier from the parent's \<open>replies\<close>, count the documents that still name the comment
  as parent and add one, decrement the project's \<open>commentsCount\<close> by that, delete the
  comment.
\<close>

definition delete_Comment :: "ObjectId \<Rightarrow> ObjectId \<Rightarrow> Database \<Rightarrow> (error + string) \<times> Database" where
  "delete_Comment u i db =
     (case findById i (comments db) of
        None \<Rightarrow> (Inl (NotFound ''Comment not found''), db)
      | Some doc \<Rightarrow>
          if Comment.author doc \<noteq> u then (Inl NotAuthorized, db)
          else
            let cs1 = deleteMany (\<lambda>c. parentComment c = Some i) (comments db);
                cs2 = (case parentComment doc of
                         None \<Rightarrow> cs1
                       | Some pc \<Rightarrow>
                           findByIdAndUpdate pc
                             (\<lambda>c. c\<lparr>replies := filter (\<lambda>r. r \<noteq> i) (replies c)\<rparr>) cs1);
                totalCommentsDeleted =
                  int (countDocuments (\<lambda>c. parentComment c = Some i) cs2) + 1;
                ps' = findByIdAndUpdate (project doc)
                        (\<lambda>p. p\<lparr>commentsCount :=
                                 inc_Number (commentsCount p) (- totalCommentsDeleted)\<rparr>)
                        (projects db);
                cs3 = findByIdAndDelete i cs2
            in (Inr ''Comment deleted successfully'', db\<lparr>projects := ps', comments := cs3\<rparr>))"

section \<open>Project routes\<close>

text \<open>
  The projects router, src/unnamed/part_001. \<open>router.put("/:id")\<close>: the body is spread
  into \<open>updateData\<close> (a tags string split at commas) and handed to \<open>findByIdAndUpdate\<close>
  unvalidated. What that update does to the stored document is the parameter
  \<open>updateData\<close>; MongoDB refuses an update that would change \<open>_id\<close>, and the catch block
  answers 500.
\<close>

definition update_Project ::
  "ObjectId \<Rightarrow> ObjectId \<Rightarrow> (Project \<Rightarrow> Project) \<Rightarrow> Database \<Rightarrow> (error + Project option) \<times> Database" where
  "update_Project u i updateData db =
     (case findById i (projects db) of
        None \<Rightarrow> (Inl (NotFound ''Project not found''), db)
      | Some doc \<Rightarrow>
          if Project.author doc \<noteq> u then (Inl NotAuthorized, db)
          else if ident (updateData doc) \<noteq> ident doc then (Inl ServerError, db)
          else let ps' = findByIdAndUpdate i updateData (projects db)
               in (Inr (findById i ps'), db\<lparr>projects := ps'\<rparr>))"

text \<open>\<open>router.delete("/:id")\<close>: the project's comments go first, then the project.\<close>

definition delete_Project :: "ObjectId \<Rightarrow> ObjectId \<Rightarrow> Database \<Rightarrow> (error + string) \<times> Database" where
  "delete_Project u i db =
     (case findById i (projects db) of
        None \<Rightarrow> (Inl (NotFound ''Project not found''), db)
      | Some doc \<Rightarrow>
          if Project.author doc \<noteq> u then (Inl NotAuthorized, db)
          else (Inr ''Project deleted successfully'',
                db\<lparr>projects := findByIdAndDelete i (projects db),
                   comments := deleteMany (\<lambda>c. project c = i) (comments db)\<rparr>))"

section \<open>Profile update\<close>

text \<open>
  src/routes/user.js, \<open>router.put('/profile')\<close>. \<open>req_user\<close> is the document the
  authentication middleware attached to the request. The uniqueness check runs when the
  submitted username is truthy and differs from \<open>req.user.username\<close>. A body field that
  is absent is \<open>undefined\<close> in the update and leaves the stored path as it is. In a
  collection whose usernames are unique the index on \<open>username\<close> cannot refuse the write
  that follows the check.
\<close>

definition set_path :: "'v option \<Rightarrow> ('v \<Rightarrow> 'd \<Rightarrow> 'd) \<Rightarrow> 'd \<Rightarrow> 'd" where
  "set_path v f d = (case v of None \<Rightarrow> d | Some x \<Rightarrow> f x d)"

definition update_profile ::
  "string list \<Rightarrow> User \<Rightarrow> string option \<Rightarrow> string option \<Rightarrow> string option \<Rightarrow> string option
     \<Rightarrow> string option \<Rightarrow> Database \<Rightarrow> (error + User option) \<times> Database" where
  "update_profile errors req_user b_username b_bio b_avatar b_githubProfile b_portfolio db =
     (if errors \<noteq> [] then (Inl (ValidationFailed errors), db)
      else case (case b_username of
                   None \<Rightarrow> None
                 | Some n \<Rightarrow> if n \<noteq> [] \<and> n \<noteq> username req_user
                             then findOne (\<lambda>x. username x = n) (users db) else None) of
        Some existingUser \<Rightarrow> (Inl UsernameTaken, db)
      | None \<Rightarrow>
          let us' = findByIdAndUpdate (ident req_user)
                      (\<lambda>x. set_path b_portfolio (\<lambda>v y. y\<lparr>portfolio := v\<rparr>)
                            (set_path b_githubProfile (\<lambda>v y. y\<lparr>githubProfile := v\<rparr>)
                              (set_path b_avatar (\<lambda>v y. y\<lparr>avatar := v\<rparr>)
                                (set_path b_bio (\<lambda>v y. y\<lparr>bio := v\<rparr>)
                                  (set_path b_username (\<lambda>v y. y\<lparr>username := v\<rparr>) x)))))
                      (users db)
          in (Inr (findById (ident req_user) us'), db\<lparr>users := us'\<rparr>))"

section \<open>Predicates of the specification\<close>

text \<open>
  The reply set of comment \<open>i\<close> is synchronised with the parent references: the stored
  comment's \<open>replies\<close> hold exactly the identifiers of the comments whose
  \<open>parentComment\<close> is \<open>i\<close>.
\<close>

definition replies_synchronised :: "ObjectId \<Rightarrow> Comment list \<Rightarrow> bool" where
  "replies_synchronised i cs =
     (case findById i cs of
        None \<Rightarrow> False
      | Some c \<Rightarrow> set (replies c) = set (map ident (filter (\<lambda>r. parentComment r = Some i) cs)))"

text \<open>Two levels of nesting: the parent of every reply is stored and is top-level.\<close>

definition two_levels :: "Comment list \<Rightarrow> bool" where
  "two_levels cs =
     list_all (\<lambda>c. case parentComment c of
                     None \<Rightarrow> True
                   | Some pc \<Rightarrow> (case findById pc cs of
                                  None \<Rightarrow> False
                                | Some q \<Rightarrow> parentComment q = None)) cs"

section \<open>A scenario\<close>

text \<open>
  The scenario of the specification: three users, project A of user 10, then the top-level
  comment 100 of user 11 and its reply 101 of user 12, both made by the create route.
\<close>

definition user_of :: "ObjectId \<Rightarrow> string \<Rightarrow> User" where
  "user_of i n = \<lparr>ident = i, username = n, email = n @ ''@example.org'', password = ''$2a$10$'',
      avatar = [], bio = [], githubProfile = [], portfolio = []\<rparr>"

definition project_A :: Project where
  "project_A = \<lparr>ident = 50, title = ''A'', description = ''demo'', image = ''http://a/i.png'',
      githubUrl = ''http://a/src'', liveUrl = None, tags = [''web'', ''api''], author = 10,
      likes = [], likesCount = 0, commentsCount = 0\<rparr>"

definition db_A :: Database where
  "db_A = \<lparr>users = [user_of 10 ''ana'', user_of 11 ''ben'', user_of 12 ''cyd''],
           projects = [project_A], comments = []\<rparr>"

definition db_C1 :: Database where
  "db_C1 = snd (create_Comment [] 11 100 ''first'' 50 None db_A)"

definition db_R1 :: Database where
  "db_R1 = snd (create_Comment [] 12 101 ''reply'' 50 (Some 100) db_C1)"

text \<open>Project A when user 10 already likes it.\<close>

definition db_liked :: Database where
  "db_liked = db_A\<lparr>projects := [project_A\<lparr>Project.likes := [10], Project.likesCount := 1\<rparr>]\<rparr>"

text \<open>
  States the unvalidated project update reaches from \<open>db_A\<close>, each by one request of the
  author: a title emptied with a counter set to 5, a counter alone set to 5, a liker array
  naming user 10 twice, and a comment count of \<open>2 ^ 53\<close>.
\<close>

definition db_invalid :: Database where
  "db_invalid = snd (update_Project 10 50
                  (\<lambda>p. p\<lparr>title := [], Project.likesCount := 5\<rparr>) db_A)"

definition db_stale :: Database where
  "db_stale = snd (update_Project 10 50 (\<lambda>p. p\<lparr>Project.likesCount := 5\<rparr>) db_A)"

definition db_twice :: Database where
  "db_twice = snd (update_Project 10 50
                (\<lambda>p. p\<lparr>Project.likes := [10, 10], Project.likesCount := 2\<rparr>) db_A)"

definition db_big :: Database where
  "db_big = snd (update_Project 10 50 (\<lambda>p. p\<lparr>commentsCount := 2 ^ 53\<rparr>) db_A)"

text \<open>
  A second project B of user 10, a top-level comment 100 under A, a reply 101 to it filed
  under B, project B deleted, and then a reply 102 to comment 100 under A.
\<close>

definition project_B :: Project where
  "project_B = project_A\<lparr>ident := 60, title := ''B''\<rparr>"

definition db_AB :: Database where
  "db_AB = db_A\<lparr>projects := [project_A, project_B]\<rparr>"

definition db_AB_C1 :: Database where
  "db_AB_C1 = snd (create_Comment [] 11 100 ''first'' 50 None db_AB)"

definition db_AB_R1 :: Database where
  "db_AB_R1 = snd (create_Comment [] 12 101 ''reply'' 60 (Some 100) db_AB_C1)"

definition db_AB_deleted :: Database where
  "db_AB_deleted = snd (delete_Project 10 60 db_AB_R1)"

definition db_AB_R2 :: Database where
  "db_AB_R2 = snd (create_Comment [] 12 102 ''again'' 50 (Some 100) db_AB_deleted)"

section \<open>Facts about Numbers\<close>

lemma round_double_exact: "\<bar>n\<bar> \<le> 2 ^ 53 \<Longrightarrow> round_double n = n"
  by (simp add: round_double_def)

lemma inc_Number_exact:
  "- (2 ^ 53) \<le> x + d \<Longrightarrow> x + d \<le> 2 ^ 53 \<Longrightarrow> inc_Number x d = x + d"
  by (simp add: inc_Number_def round_double_def abs_le_iff)

lemma inc_Number_2_53: "inc_Number 9007199254740992 1 = 9007199254740992"
  by code_simp

lemma inc_Number_one: "- (2 ^ 53) \<le> x \<Longrightarrow> x < 2 ^ 53 \<Longrightarrow> inc_Number x 1 = x + 1"
  by (rule inc_Number_exact) simp_all

section \<open>Facts about the persistence layer\<close>

lemma findById_ident: "findById i xs = Some d \<Longrightarrow> ident d = i"
  by (induction xs) (auto simp: findById_def findOne_def split: if_splits)

lemma findById_mem: "findById i xs = Some d \<Longrightarrow> d \<in> set xs"
  by (induction xs) (auto simp: findById_def findOne_def split: if_splits)

lemma findById_None_iff: "findById i xs = None \<longleftrightarrow> i \<notin> ident ` set xs"
  by (induction xs) (auto simp: findById_def findOne_def)

lemma findById_update_same:
  "findById i xs = Some d \<Longrightarrow> ident (f d) = i \<Longrightarrow>
     findById i (findByIdAndUpdate i f xs) = Some (f d)"
  by (induction xs) (auto simp: findById_def findOne_def findByIdAndUpdate_def split: if_splits)

lemma findById_update_other:
  "j \<noteq> i \<Longrightarrow> (\<And>d. ident (f d) = ident d) \<Longrightarrow>
     findById j (findByIdAndUpdate i f xs) = findById j xs"
  by (induction xs) (auto simp: findById_def findOne_def findByIdAndUpdate_def)

lemma findById_append: "findById i xs = Some d \<Longrightarrow> findById i (xs @ ys) = Some d"
  by (induction xs) (auto simp: findById_def findOne_def split: if_splits)

lemma findById_filter: "findById i xs = Some d \<Longrightarrow> P d \<Longrightarrow> findById i (filter P xs) = Some d"
  by (induction xs) (auto simp: findById_def findOne_def split: if_splits)

lemma findById_delete_other:
  "j \<noteq> i \<Longrightarrow> findById j (findByIdAndDelete i xs) = findById j xs"
  by (induction xs) (auto simp: findById_def findOne_def findByIdAndDelete_def)

lemma map_updateOne:
  "(\<And>x. q x \<Longrightarrow> g (f x) = g x) \<Longrightarrow> map g (updateOne q f xs) = map g xs"
  by (induction xs) auto

lemma updateOne_same: "find q xs = Some d \<Longrightarrow> updateOne q (\<lambda>_. d) xs = xs"
  by (induction xs) (auto split: if_splits)

lemma updateOne_twice:
  "(\<And>x. q x \<Longrightarrow> q (f x)) \<Longrightarrow>
     updateOne q g (updateOne q f xs) = updateOne q (\<lambda>x. g (f x)) xs"
  by (induction xs) auto

lemma saveLoaded_found:
  "findById i xs = Some d \<Longrightarrow> ident d' = i \<Longrightarrow> findById i (saveLoaded d' xs) = Some d'"
  unfolding saveLoaded_def by (simp add: findById_update_same)

lemma saveLoaded_other: "j \<noteq> ident d' \<Longrightarrow> findById j (saveLoaded d' xs) = findById j xs"
  by (induction xs) (auto simp: saveLoaded_def findById_def findOne_def findByIdAndUpdate_def)

lemma saveLoaded_twice:
  "saveLoaded d2 (saveLoaded d1 xs) = saveLoaded d2 xs" if "ident d1 = ident d2"
  unfolding saveLoaded_def findByIdAndUpdate_def using that
  by (simp add: updateOne_twice)

lemma saveLoaded_same: "findById i xs = Some d \<Longrightarrow> saveLoaded d xs = xs"
  using findById_ident[of i xs d]
  by (simp add: saveLoaded_def findByIdAndUpdate_def findById_def findOne_def updateOne_same)

lemma deleteOne_distinct:
  "distinct (map ident xs) \<Longrightarrow> findByIdAndDelete i xs = filter (\<lambda>d. ident d \<noteq> i) xs"
proof (induction xs)
  case Nil
  then show ?case by (simp add: findByIdAndDelete_def)
next
  case (Cons x xs)
  then have ih: "deleteOne (\<lambda>d. ident d = i) xs = filter (\<lambda>d. ident d \<noteq> i) xs"
    by (simp add: findByIdAndDelete_def)
  show ?case
  proof (cases "ident x = i")
    case True
    with Cons.prems have "i \<notin> ident ` set xs" by auto
    then have "\<forall>d \<in> set xs. ident d \<noteq> i" by blast
    then have "filter (\<lambda>d. ident d \<noteq> i) xs = xs" by (simp add: filter_id_conv)
    with True show ?thesis by (simp add: findByIdAndDelete_def)
  next
    case False
    with ih show ?thesis by (simp add: findByIdAndDelete_def)
  qed
qed

lemma countDocuments_after_deleteMany:
  "(\<And>x. g (f x) = g x) \<Longrightarrow>
     countDocuments (\<lambda>c. g c = v) (updateOne q f (deleteMany (\<lambda>c. g c = v) xs)) = 0"
proof -
  assume g: "\<And>x. g (f x) = g x"
  have "map g (updateOne q f (deleteMany (\<lambda>c. g c = v) xs)) = map g (deleteMany (\<lambda>c. g c = v) xs)"
    by (rule map_updateOne) (simp add: g)
  then have "filter (\<lambda>y. y = v) (map g (updateOne q f (deleteMany (\<lambda>c. g c = v) xs))) = []"
    by (simp add: deleteMany_def filter_map o_def)
  then show ?thesis
    by (simp add: countDocuments_def filter_map o_def)
qed

section \<open>Parent links\<close>

lemma update_keeps_links:
  assumes "\<And>c. ident (g c) = ident c" and "\<And>c. parentComment (g c) = parentComment c"
  shows "map ident (findByIdAndUpdate i g xs) = map ident xs"
    and "map parentComment (findByIdAndUpdate i g xs) = map parentComment xs"
  unfolding findByIdAndUpdate_def by (rule map_updateOne, simp add: assms)+

lemma links_filter_cong:
  fixes xs ys :: "Comment list"
  shows "map ident ys = map ident xs \<Longrightarrow> map parentComment ys = map parentComment xs \<Longrightarrow>
     map ident (filter (\<lambda>x. Q (ident x) (parentComment x)) ys)
       = map ident (filter (\<lambda>x. Q (ident x) (parentComment x)) xs)"
proof (induction xs arbitrary: ys)
  case Nil
  then show ?case by simp
next
  case (Cons x xs)
  then obtain y ys' where ys: "ys = y # ys'" by (cases ys) auto
  with Cons.prems have "ident y = ident x" "parentComment y = parentComment x"
      "map ident ys' = map ident xs" "map parentComment ys' = map parentComment xs"
    by simp_all
  with Cons.IH[of ys'] ys show ?case by simp
qed

lemma links_find_cong:
  fixes xs ys :: "Comment list"
  shows "map ident ys = map ident xs \<Longrightarrow> map parentComment ys = map parentComment xs \<Longrightarrow>
     map_option parentComment (findById p ys) = map_option parentComment (findById p xs)"
proof (induction xs arbitrary: ys)
  case Nil
  then show ?case by simp
next
  case (Cons x xs)
  then obtain y ys' where ys: "ys = y # ys'" by (cases ys) auto
  with Cons.prems have "ident y = ident x" "parentComment y = parentComment x"
      "map ident ys' = map ident xs" "map parentComment ys' = map parentComment xs"
    by simp_all
  with Cons.IH[of ys'] ys show ?case by (simp add: findById_def findOne_def)
qed

lemma two_levels_alt:
  "two_levels cs =
     list_all (\<lambda>par. case par of None \<Rightarrow> True
                | Some pc \<Rightarrow> map_option parentComment (findById pc cs) = Some None)
       (map parentComment cs)"
  unfolding two_levels_def list_all_iff
  by (simp, intro ball_cong refl) (simp split: option.splits)

lemma two_levels_cong:
  assumes "map ident ys = map ident xs" and "map parentComment ys = map parentComment xs"
  shows "two_levels ys = two_levels xs"
  unfolding two_levels_alt using assms links_find_cong[OF assms] by simp

lemma two_levels_append:
  assumes "two_levels cs"
    and "case parentComment d of None \<Rightarrow> True
         | Some pc \<Rightarrow> (case findById pc cs of None \<Rightarrow> False | Some q \<Rightarrow> parentComment q = None)"
  shows "two_levels (cs @ [d])"
proof -
  have "case parentComment c of None \<Rightarrow> True
         | Some pc \<Rightarrow> (case findById pc (cs @ [d]) of None \<Rightarrow> False
                        | Some q \<Rightarrow> parentComment q = None)"
    if "case parentComment c of None \<Rightarrow> True
         | Some pc \<Rightarrow> (case findById pc cs of None \<Rightarrow> False | Some q \<Rightarrow> parentComment q = None)"
    for c :: Comment
    using that by (auto simp: findById_append split: option.splits)
  with assms show ?thesis
    by (simp add: two_levels_def list_all_iff)
qed

lemma create_Comment_success:
  assumes "create_Comment errors u new_id b_content projectId parentCommentId db = (Inr doc, db')"
  shows "doc = \<lparr>ident = new_id, content = b_content, author = u, project = projectId,
                parentComment = parentCommentId, replies = [], likes = [], likesCount = 0\<rparr>"
    and "findById new_id (comments db) = None"
    and "comments db' = (case parentCommentId of
                           None \<Rightarrow> comments db @ [doc]
                         | Some pc \<Rightarrow> findByIdAndUpdate pc
                              (\<lambda>c. c\<lparr>replies := replies c @ [new_id]\<rparr>) (comments db @ [doc]))"
    and "\<And>pc. parentCommentId = Some pc \<Longrightarrow> findById pc (comments db) \<noteq> None"
  using assms
  by (auto simp: create_Comment_def Let_def insertOne_def pre_save_Comment_def
      split: if_splits option.splits)

text \<open>
  Identifiers stay unique in the comments collection: an insert of a stored identifier is
  refused, updates keep identifiers and deletes only remove documents.
\<close>

lemma create_Comment_keeps_idents_distinct:
  assumes "distinct (map ident (comments db))"
  shows "distinct (map ident (comments (snd (create_Comment errors u new_id b_content projectId
            parentCommentId db))))"
proof (cases "create_Comment errors u new_id b_content projectId parentCommentId db")
  case (Pair res db')
  show ?thesis
  proof (cases res)
    case (Inl e)
    with Pair have "db' = db"
      by (auto simp: create_Comment_def Let_def split: if_splits option.splits)
    with Pair assms show ?thesis by simp
  next
    case (Inr doc)
    note s = create_Comment_success[OF Pair[unfolded Inr]]
    have "map ident (comments db') = map ident (comments db @ [doc])"
      by (cases parentCommentId; simp add: s(3) update_keeps_links)
    moreover have "distinct (map ident (comments db @ [doc]))"
      using assms s(2) by (simp add: s(1) findById_None_iff)
    ultimately show ?thesis using Pair by simp
  qed
qed

lemma deleteOne_sublist: "set (deleteOne q xs) \<subseteq> set xs"
  by (induction xs) auto

lemma deleteOne_keeps_distinct: "distinct (map g xs) \<Longrightarrow> distinct (map g (deleteOne q xs))"
proof (induction xs)
  case Nil
  then show ?case by simp
next
  case (Cons x xs)
  then show ?case using deleteOne_sublist[of q xs] by auto
qed

lemma delete_Comment_keeps_idents_distinct:
  assumes "distinct (map ident (comments db))"
  shows "distinct (map ident (comments (snd (delete_Comment u i db))))"
proof -
  have a: "distinct (map ident (deleteMany q (comments db)))" for q
    using assms by (simp add: deleteMany_def distinct_map_filter)
  have b: "distinct (map ident (findByIdAndUpdate pc
            (\<lambda>c. c\<lparr>replies := filter (\<lambda>r. r \<noteq> i) (replies c)\<rparr>) (deleteMany q (comments db))))"
    for pc q
    using a[of q] by (simp add: update_keeps_links)
  show ?thesis
    using assms a b
    by (auto simp: delete_Comment_def Let_def findByIdAndDelete_def deleteOne_keeps_distinct
        split: option.splits)
qed

section \<open>The scenario, evaluated\<close>

lemma db_C1_value:
  "create_Comment [] 11 100 ''first'' 50 None db_A =
     (Inr \<lparr>ident = 100, content = ''first'', author = 11, project = 50, parentComment = None,
           replies = [], likes = [], likesCount = 0\<rparr>,
      db_A\<lparr>projects := [project_A\<lparr>commentsCount := 1\<rparr>],
           comments := [\<lparr>ident = 100, content = ''first'', author = 11, project = 50,
                         parentComment = None, replies = [], likes = [], likesCount = 0\<rparr>]\<rparr>)"
  by (simp add: create_Comment_def db_A_def project_A_def findById_def findOne_def
      insertOne_def pre_save_Comment_def findByIdAndUpdate_def inc_Number_exact Let_def)

lemma db_C1_eq:
  "db_C1 = db_A\<lparr>projects := [project_A\<lparr>commentsCount := 1\<rparr>],
           comments := [\<lparr>ident = 100, content = ''first'', author = 11, project = 50,
                         parentComment = None, replies = [], likes = [], likesCount = 0\<rparr>]\<rparr>"
  by (simp add: db_C1_def db_C1_value)

lemma db_R1_value:
  "create_Comment [] 12 101 ''reply'' 50 (Some 100) db_C1 =
     (Inr \<lparr>ident = 101, content = ''reply'', author = 12, project = 50, parentComment = Some 100,
           replies = [], likes = [], likesCount = 0\<rparr>,
      db_A\<lparr>projects := [project_A\<lparr>commentsCount := 2\<rparr>],
           comments := [\<lparr>ident = 100, content = ''first'', author = 11, project = 50,
                         parentComment = None, replies = [101], likes = [], likesCount = 0\<rparr>,
                        \<lparr>ident = 101, content = ''reply'', author = 12, project = 50,
                         parentComment = Some 100, replies = [], likes = [], likesCount = 0\<rparr>]\<rparr>)"
  by (simp add: db_C1_eq create_Comment_def db_A_def project_A_def findById_def findOne_def
      insertOne_def pre_save_Comment_def findByIdAndUpdate_def inc_Number_exact Let_def)

lemma db_R1_eq:
  "db_R1 = db_A\<lparr>projects := [project_A\<lparr>commentsCount := 2\<rparr>],
           comments := [\<lparr>ident = 100, content = ''first'', author = 11, project = 50,
                         parentComment = None, replies = [101], likes = [], likesCount = 0\<rparr>,
                        \<lparr>ident = 101, content = ''reply'', author = 12, project = 50,
                         parentComment = Some 100, replies = [], likes = [], likesCount = 0\<rparr>]\<rparr>"
  by (simp add: db_R1_def db_R1_value)

lemma db_invalid_eq:
  "db_invalid = db_A\<lparr>projects := [project_A\<lparr>title := [], Project.likesCount := 5\<rparr>]\<rparr>"
  by (simp add: db_invalid_def update_Project_def db_A_def project_A_def findById_def
      findOne_def findByIdAndUpdate_def Let_def)

lemma db_stale_eq:
  "db_stale = db_A\<lparr>projects := [project_A\<lparr>Project.likesCount := 5\<rparr>]\<rparr>"
  by (simp add: db_stale_def update_Project_def db_A_def project_A_def findById_def
      findOne_def findByIdAndUpdate_def Let_def)

lemma db_twice_eq:
  "db_twice = db_A\<lparr>projects := [project_A\<lparr>Project.likes := [10, 10], Project.likesCount := 2\<rparr>]\<rparr>"
  by (simp add: db_twice_def update_Project_def db_A_def project_A_def findById_def
      findOne_def findByIdAndUpdate_def Let_def)

lemma db_big_eq:
  "db_big = db_A\<lparr>projects := [project_A\<lparr>commentsCount := 2 ^ 53\<rparr>]\<rparr>"
  by (simp add: db_big_def update_Project_def db_A_def project_A_def findById_def
      findOne_def findByIdAndUpdate_def Let_def)

lemma db_AB_C1_eq:
  "db_AB_C1 = db_A\<lparr>projects := [project_A\<lparr>commentsCount := 1\<rparr>, project_B],
        comments := [\<lparr>ident = 100, content = ''first'', author = 11, project = 50,
                      parentComment = None, replies = [], likes = [], likesCount = 0\<rparr>]\<rparr>"
  by (simp add: db_AB_C1_def db_AB_def project_B_def create_Comment_def db_A_def project_A_def
      findById_def findOne_def insertOne_def pre_save_Comment_def findByIdAndUpdate_def
      inc_Number_exact Let_def)

lemma db_AB_R1_eq:
  "db_AB_R1 = db_A\<lparr>projects := [project_A\<lparr>commentsCount := 1\<rparr>,
                                   project_B\<lparr>commentsCount := 1\<rparr>],
        comments := [\<lparr>ident = 100, content = ''first'', author = 11, project = 50,
                      parentComment = None, replies = [101], likes = [], likesCount = 0\<rparr>,
                     \<lparr>ident = 101, content = ''reply'', author = 12, project = 60,
                      parentComment = Some 100, replies = [], likes = [], likesCount = 0\<rparr>]\<rparr>"
  by (simp add: db_AB_R1_def db_AB_C1_eq project_B_def create_Comment_def db_A_def project_A_def
      findById_def findOne_def insertOne_def pre_save_Comment_def findByIdAndUpdate_def
      inc_Number_exact Let_def)

lemma db_AB_deleted_eq:
  "db_AB_deleted = db_A\<lparr>projects := [project_A\<lparr>commentsCount := 1\<rparr>],
        comments := [\<lparr>ident = 100, content = ''first'', author = 11, project = 50,
                      parentComment = None, replies = [101], likes = [], likesCount = 0\<rparr>]\<rparr>"
  by (simp add: db_AB_deleted_def db_AB_R1_eq project_B_def delete_Project_def db_A_def
      project_A_def findById_def findOne_def findByIdAndDelete_def deleteMany_def)

lemma db_AB_R2_eq:
  "db_AB_R2 = db_A\<lparr>projects := [project_A\<lparr>commentsCount := 2\<rparr>],
        comments := [\<lparr>ident = 100, content = ''first'', author = 11, project = 50,
                      parentComment = None, replies = [101, 102], likes = [], likesCount = 0\<rparr>,
                     \<lparr>ident = 102, content = ''again'', author = 12, project = 50,
                      parentComment = Some 100, replies = [], likes = [], likesCount = 0\<rparr>]\<rparr>"
  by (simp add: db_AB_R2_def db_AB_deleted_eq create_Comment_def db_A_def project_A_def
      findById_def findOne_def insertOne_def pre_save_Comment_def findByIdAndUpdate_def
      inc_Number_exact Let_def)

section \<open>The like counter\<close>

lemma validate_Project_likes:
  "validate_Project (p\<lparr>Project.likes := ls\<rparr>) = validate_Project p"
  "validate_Project (p\<lparr>Project.likesCount := n\<rparr>) = validate_Project p"
  by (simp_all add: validate_Project_def)

lemma like_Project_invalid:
  "findById i (projects db) = Some p \<Longrightarrow> \<not> validate_Project p \<Longrightarrow>
     like_Project u i db = (Inl ServerError, db)"
  by (simp add: like_Project_def Let_def validate_Project_likes)

lemma like_Project_valid:
  assumes "findById i (projects db) = Some p" and "validate_Project p"
  shows "like_Project u i db =
      (let ls = (if u \<in> set (Project.likes p)
                 then filter (\<lambda>x. x \<noteq> u) (Project.likes p)
                 else Project.likes p @ [u])
       in (Inr \<lparr>liked = u \<notin> set (Project.likes p), likesCount = int (length ls)\<rparr>,
           db\<lparr>projects := saveLoaded
                 (p\<lparr>Project.likes := ls, Project.likesCount := int (length ls)\<rparr>)
                 (projects db)\<rparr>))"
  using assms
  by (simp add: like_Project_def Let_def pre_save_Project_def validate_Project_likes)

lemma like_Project_step:
  assumes "findById i (projects db) = Some p" and "validate_Project p"
  shows "\<exists>p'. findById i (projects (snd (like_Project u i db))) = Some p'
           \<and> validate_Project p'
           \<and> Project.likesCount p' = int (length (Project.likes p'))
           \<and> (distinct (Project.likes p) \<longrightarrow> distinct (Project.likes p'))"
  using assms findById_ident[OF assms(1)]
  by (auto simp: like_Project_valid Let_def saveLoaded_found validate_Project_likes)

lemma like_Project_each_inv:
  "findById i (projects db) = Some p \<Longrightarrow> validate_Project p \<Longrightarrow> us \<noteq> [] \<Longrightarrow>
     \<exists>p'. findById i (projects (like_Project_each us i db)) = Some p'
           \<and> Project.likesCount p' = int (length (Project.likes p'))
           \<and> (distinct (Project.likes p) \<longrightarrow> distinct (Project.likes p'))"
proof (induction us arbitrary: db p)
  case Nil
  then show ?case by simp
next
  case (Cons u us)
  obtain p1 where p1: "findById i (projects (snd (like_Project u i db))) = Some p1"
      "validate_Project p1"
      "Project.likesCount p1 = int (length (Project.likes p1))"
      "distinct (Project.likes p) \<longrightarrow> distinct (Project.likes p1)"
    using like_Project_step[OF Cons.prems(1,2)] by blast
  show ?case
  proof (cases "us = []")
    case True
    with p1 show ?thesis by simp
  next
    case False
    from Cons.IH[OF p1(1,2) False] p1(4) show ?thesis by auto
  qed
qed

text \<open>
  C2, as amended. For a stored project that passes the validators of its schema, a like
  toggle writes the project once, with the toggled liker array and \<open>likesCount\<close> set to
  its length by the save hook, and answers with that count. After any non-empty run of
  toggles by any users (the same user may repeat) the stored \<open>likesCount\<close> is the length
  of the liker array; when the array held no user twice before, that is the number of
  distinct likers. On a stored project that fails the validators the save throws: the
  toggle answers 500 and writes nothing.
\<close>

theorem like_Project_likesCount:
  assumes "findById i (projects db) = Some p" and "us \<noteq> []"
  shows "(validate_Project p \<longrightarrow>
           (let ls = (if u \<in> set (Project.likes p)
                      then filter (\<lambda>x. x \<noteq> u) (Project.likes p)
                      else Project.likes p @ [u])
            in like_Project u i db =
                 (Inr \<lparr>liked = u \<notin> set (Project.likes p), likesCount = int (length ls)\<rparr>,
                  db\<lparr>projects := saveLoaded
                        (p\<lparr>Project.likes := ls, Project.likesCount := int (length ls)\<rparr>)
                        (projects db)\<rparr>))
           \<and> (\<exists>p'. findById i (projects (like_Project_each us i db)) = Some p'
                 \<and> Project.likesCount p' = int (length (Project.likes p'))
                 \<and> (distinct (Project.likes p) \<longrightarrow>
                      Project.likesCount p' = int (card (set (Project.likes p'))))))
       \<and> (\<not> validate_Project p \<longrightarrow> like_Project u i db = (Inl ServerError, db))"
proof (intro conjI impI)
  assume v: "validate_Project p"
  show "let ls = (if u \<in> set (Project.likes p)
                      then filter (\<lambda>x. x \<noteq> u) (Project.likes p)
                      else Project.likes p @ [u])
            in like_Project u i db =
                 (Inr \<lparr>liked = u \<notin> set (Project.likes p), likesCount = int (length ls)\<rparr>,
                  db\<lparr>projects := saveLoaded
                        (p\<lparr>Project.likes := ls, Project.likesCount := int (length ls)\<rparr>)
                        (projects db)\<rparr>)"
    by (simp add: like_Project_valid[OF assms(1) v] Let_def)
  obtain p' where p': "findById i (projects (like_Project_each us i db)) = Some p'"
      "Project.likesCount p' = int (length (Project.likes p'))"
      "distinct (Project.likes p) \<longrightarrow> distinct (Project.likes p')"
    using like_Project_each_inv[OF assms(1) v assms(2)] by blast
  have "distinct (Project.likes p) \<longrightarrow> Project.likesCount p' = int (card (set (Project.likes p')))"
    using p'(2,3) by (simp add: distinct_card)
  with p'(1,2) show "\<exists>p'. findById i (projects (like_Project_each us i db)) = Some p'
                 \<and> Project.likesCount p' = int (length (Project.likes p'))
                 \<and> (distinct (Project.likes p) \<longrightarrow>
                      Project.likesCount p' = int (card (set (Project.likes p'))))"
    by blast
next
  assume "\<not> validate_Project p"
  then show "like_Project u i db = (Inl ServerError, db)"
    by (rule like_Project_invalid[OF assms(1)])
qed

theorem like_Project_likesCount_witness:
  "findById 50 (projects db_A) = Some project_A \<and> [10, 10, 11] \<noteq> ([] :: ObjectId list)
   \<and> validate_Project project_A \<and> distinct (Project.likes project_A)
   \<and> fst (like_Project 10 50 db_A) = Inr \<lparr>liked = True, likesCount = 1\<rparr>
   \<and> (\<exists>p'. findById 50 (projects (like_Project_each [10, 10, 11] 50 db_A)) = Some p'
         \<and> Project.likesCount p' = int (length (Project.likes p'))
         \<and> Project.likesCount p' = int (card (set (Project.likes p'))))
   \<and> (\<exists>q. findById 50 (projects db_invalid) = Some q \<and> \<not> validate_Project q)
   \<and> like_Project 10 50 db_invalid = (Inl ServerError, db_invalid)"
proof -
  have h: "findById 50 (projects db_A) = Some project_A"
    by (simp add: db_A_def project_A_def findById_def findOne_def)
  have d: "distinct (Project.likes project_A)" "Project.likes project_A = []"
      "validate_Project project_A"
    by (simp_all add: project_A_def validate_Project_def)
  note t = like_Project_likesCount[OF h, of "[10, 10, 11]" 10, THEN conjunct1, rule_format, OF _ d(3)]
  have a: "fst (like_Project 10 50 db_A) = Inr \<lparr>liked = True, likesCount = 1\<rparr>"
    using t[THEN conjunct1] d(2) by (simp add: Let_def)
  have b: "\<exists>p'. findById 50 (projects (like_Project_each [10, 10, 11] 50 db_A)) = Some p'
         \<and> Project.likesCount p' = int (length (Project.likes p'))
         \<and> Project.likesCount p' = int (card (set (Project.likes p')))"
    using t[THEN conjunct2] d(1) by blast
  let ?q = "project_A\<lparr>title := [], Project.likesCount := 5\<rparr>"
  have q: "findById 50 (projects db_invalid) = Some ?q" "\<not> validate_Project ?q"
    by (simp_all add: db_invalid_eq project_A_def findById_def findOne_def validate_Project_def)
  have c: "like_Project 10 50 db_invalid = (Inl ServerError, db_invalid)"
    using like_Project_likesCount[OF q(1), of "[10]" 10, THEN conjunct2] q(2) by simp
  from h d(1,3) a b q c show ?thesis by blast
qed

text \<open>
  C2 as written fails on a project that the unvalidated update left with an empty title
  and a counter of 5: the toggle of user 11 answers 500, the liker array stays empty and
  \<open>likesCount\<close> stays 5.
\<close>

theorem like_Project_likesCount_counterexample:
  "map Project.likes (projects db_invalid) = [[]]
   \<and> map Project.likesCount (projects db_invalid) = [5]
   \<and> like_Project 11 50 db_invalid = (Inl ServerError, db_invalid)"
  by (simp add: db_invalid_eq db_A_def project_A_def like_Project_def findById_def findOne_def
      validate_Project_def Let_def)

lemma length_filter_others:
  "length (filter (\<lambda>x. x \<noteq> u) ls) + count_list ls u = length ls"
  by (induction ls) auto

lemma toggle_twice:
  fixes ls :: "ObjectId list"
  assumes "count_list ls u \<le> 1"
  defines "t1 \<equiv> (if u \<in> set ls then filter (\<lambda>x. x \<noteq> u) ls else ls @ [u])"
  defines "t2 \<equiv> (if u \<in> set t1 then filter (\<lambda>x. x \<noteq> u) t1 else t1 @ [u])"
  shows "u \<in> set t1 \<longleftrightarrow> u \<notin> set ls"
    and "int (length t1) = (if u \<in> set ls then int (length ls) - 1 else int (length ls) + 1)"
    and "length t2 = length ls" and "set t2 = set ls" and "u \<notin> set ls \<Longrightarrow> t2 = ls"
proof -
  show m: "u \<in> set t1 \<longleftrightarrow> u \<notin> set ls" by (simp add: t1_def)
  have one: "count_list ls u = 1" if "u \<in> set ls"
    using that assms(1) count_list_0_iff[of ls u] by simp
  have len: "length (filter (\<lambda>x. x \<noteq> u) ls) + 1 = length ls" if "u \<in> set ls"
    using length_filter_others[of u ls] one[OF that] by simp
  show "int (length t1) = (if u \<in> set ls then int (length ls) - 1 else int (length ls) + 1)"
    using len by (auto simp: t1_def)
  have keep: "filter (\<lambda>x. x \<noteq> u) ls = ls" if "u \<notin> set ls"
    using that by (auto simp: filter_id_conv)
  show "length t2 = length ls"
    using len keep by (auto simp: t1_def t2_def)
  show "set t2 = set ls"
    using keep by (auto simp: t1_def t2_def)
  show "t2 = ls" if "u \<notin> set ls"
    using that keep by (simp add: t1_def t2_def)
qed

lemma like_Project_twice:
  assumes f: "findById i (projects db) = Some p" and v: "validate_Project p"
    and c: "count_list (Project.likes p) u \<le> 1"
  shows "fst (like_Project u i db)
           = Inr \<lparr>liked = u \<notin> set (Project.likes p),
                  likesCount = (if u \<in> set (Project.likes p)
                                then int (length (Project.likes p)) - 1
                                else int (length (Project.likes p)) + 1)\<rparr>"
    and "\<exists>ls. like_Project u i (snd (like_Project u i db))
           = (Inr \<lparr>liked = u \<in> set (Project.likes p),
                   likesCount = int (length (Project.likes p))\<rparr>,
              db\<lparr>projects := saveLoaded
                    (p\<lparr>Project.likes := ls,
                       Project.likesCount := int (length (Project.likes p))\<rparr>)
                    (projects db)\<rparr>)
         \<and> set ls = set (Project.likes p) \<and> (u \<notin> set (Project.likes p) \<longrightarrow> ls = Project.likes p)"
proof -
  define t1 where "t1 = (if u \<in> set (Project.likes p)
      then filter (\<lambda>x. x \<noteq> u) (Project.likes p) else Project.likes p @ [u])"
  define t2 where "t2 = (if u \<in> set t1 then filter (\<lambda>x. x \<noteq> u) t1 else t1 @ [u])"
  note tw = toggle_twice[OF c, folded t1_def, folded t2_def]
  let ?p1 = "p\<lparr>Project.likes := t1, Project.likesCount := int (length t1)\<rparr>"
  have id: "ident p = i" by (rule findById_ident[OF f])
  have one: "like_Project u i db =
      (Inr \<lparr>liked = u \<notin> set (Project.likes p), likesCount = int (length t1)\<rparr>,
       db\<lparr>projects := saveLoaded ?p1 (projects db)\<rparr>)"
    by (simp add: like_Project_valid[OF f v] Let_def t1_def)
  show "fst (like_Project u i db)
           = Inr \<lparr>liked = u \<notin> set (Project.likes p),
                  likesCount = (if u \<in> set (Project.likes p)
                                then int (length (Project.likes p)) - 1
                                else int (length (Project.likes p)) + 1)\<rparr>"
    using tw(2) by (simp add: one)
  have f1: "findById i (projects (db\<lparr>projects := saveLoaded ?p1 (projects db)\<rparr>)) = Some ?p1"
    using saveLoaded_found[OF f, of ?p1] id by simp
  have v1: "validate_Project ?p1" using v by (simp add: validate_Project_likes)
  have l1: "Project.likes ?p1 = t1" by simp
  have two0: "like_Project u i (db\<lparr>projects := saveLoaded ?p1 (projects db)\<rparr>) =
      (Inr \<lparr>liked = u \<notin> set t1, likesCount = int (length t2)\<rparr>,
       db\<lparr>projects := saveLoaded ?p1 (projects db)\<rparr>
         \<lparr>projects := saveLoaded
            (?p1\<lparr>Project.likes := t2, Project.likesCount := int (length t2)\<rparr>)
            (projects (db\<lparr>projects := saveLoaded ?p1 (projects db)\<rparr>))\<rparr>)"
    by (simp only: like_Project_valid[OF f1 v1] Let_def l1 t2_def[symmetric])
  have two: "like_Project u i (snd (like_Project u i db))
           = (Inr \<lparr>liked = u \<in> set (Project.likes p),
                   likesCount = int (length (Project.likes p))\<rparr>,
              db\<lparr>projects := saveLoaded
                    (p\<lparr>Project.likes := t2,
                       Project.likesCount := int (length (Project.likes p))\<rparr>)
                    (projects db)\<rparr>)"
    unfolding one using tw(1,3) by (simp add: two0 saveLoaded_twice)
  show "\<exists>ls. like_Project u i (snd (like_Project u i db))
           = (Inr \<lparr>liked = u \<in> set (Project.likes p),
                   likesCount = int (length (Project.likes p))\<rparr>,
              db\<lparr>projects := saveLoaded
                    (p\<lparr>Project.likes := ls,
                       Project.likesCount := int (length (Project.likes p))\<rparr>)
                    (projects db)\<rparr>)
         \<and> set ls = set (Project.likes p) \<and> (u \<notin> set (Project.likes p) \<longrightarrow> ls = Project.likes p)"
    using two tw(4,5) by blast
qed

lemma like_Comment_once:
  assumes "findById i (comments db) = Some c"
  shows "like_Comment u i db =
      (let ls = (if u \<in> set (Comment.likes c)
                 then filter (\<lambda>x. x \<noteq> u) (Comment.likes c)
                 else Comment.likes c @ [u])
       in (Inr \<lparr>liked = u \<notin> set (Comment.likes c), likesCount = int (length ls)\<rparr>,
           db\<lparr>comments := saveLoaded
                 (c\<lparr>Comment.likes := ls, Comment.likesCount := int (length ls)\<rparr>)
                 (comments db)\<rparr>))"
  using assms by (simp add: like_Comment_def Let_def pre_save_Comment_def)

lemma like_Comment_twice:
  assumes f: "findById i (comments db) = Some c"
    and c: "count_list (Comment.likes c) u \<le> 1"
  shows "fst (like_Comment u i db)
           = Inr \<lparr>liked = u \<notin> set (Comment.likes c),
                  likesCount = (if u \<in> set (Comment.likes c)
                                then int (length (Comment.likes c)) - 1
                                else int (length (Comment.likes c)) + 1)\<rparr>"
    and "\<exists>ls. like_Comment u i (snd (like_Comment u i db))
           = (Inr \<lparr>liked = u \<in> set (Comment.likes c),
                   likesCount = int (length (Comment.likes c))\<rparr>,
              db\<lparr>comments := saveLoaded
                    (c\<lparr>Comment.likes := ls,
                       Comment.likesCount := int (length (Comment.likes c))\<rparr>)
                    (comments db)\<rparr>)
         \<and> set ls = set (Comment.likes c) \<and> (u \<notin> set (Comment.likes c) \<longrightarrow> ls = Comment.likes c)"
proof -
  define t1 where "t1 = (if u \<in> set (Comment.likes c)
      then filter (\<lambda>x. x \<noteq> u) (Comment.likes c) else Comment.likes c @ [u])"
  define t2 where "t2 = (if u \<in> set t1 then filter (\<lambda>x. x \<noteq> u) t1 else t1 @ [u])"
  note tw = toggle_twice[OF c, folded t1_def, folded t2_def]
  let ?c1 = "c\<lparr>Comment.likes := t1, Comment.likesCount := int (length t1)\<rparr>"
  have id: "ident c = i" by (rule findById_ident[OF f])
  have one: "like_Comment u i db =
      (Inr \<lparr>liked = u \<notin> set (Comment.likes c), likesCount = int (length t1)\<rparr>,
       db\<lparr>comments := saveLoaded ?c1 (comments db)\<rparr>)"
    by (simp add: like_Comment_once[OF f] Let_def t1_def)
  show "fst (like_Comment u i db)
           = Inr \<lparr>liked = u \<notin> set (Comment.likes c),
                  likesCount = (if u \<in> set (Comment.likes c)
                                then int (length (Comment.likes c)) - 1
                                else int (length (Comment.likes c)) + 1)\<rparr>"
    using tw(2) by (simp add: one)
  have f1: "findById i (comments (db\<lparr>comments := saveLoaded ?c1 (comments db)\<rparr>)) = Some ?c1"
    using saveLoaded_found[OF f, of ?c1] id by simp
  have l1: "Comment.likes ?c1 = t1" by simp
  have two0: "like_Comment u i (db\<lparr>comments := saveLoaded ?c1 (comments db)\<rparr>) =
      (Inr \<lparr>liked = u \<notin> set t1, likesCount = int (length t2)\<rparr>,
       db\<lparr>comments := saveLoaded ?c1 (comments db)\<rparr>
         \<lparr>comments := saveLoaded
            (?c1\<lparr>Comment.likes := t2, Comment.likesCount := int (length t2)\<rparr>)
            (comments (db\<lparr>comments := saveLoaded ?c1 (comments db)\<rparr>))\<rparr>)"
    by (simp only: like_Comment_once[OF f1] Let_def l1 t2_def[symmetric])
  have two: "like_Comment u i (snd (like_Comment u i db))
           = (Inr \<lparr>liked = u \<in> set (Comment.likes c),
                   likesCount = int (length (Comment.likes c))\<rparr>,
              db\<lparr>comments := saveLoaded
                    (c\<lparr>Comment.likes := t2,
                       Comment.likesCount := int (length (Comment.likes c))\<rparr>)
                    (comments db)\<rparr>)"
    unfolding one using tw(1,3) by (simp add: two0 saveLoaded_twice)
  show "\<exists>ls. like_Comment u i (snd (like_Comment u i db))
           = (Inr \<lparr>liked = u \<in> set (Comment.likes c),
                   likesCount = int (length (Comment.likes c))\<rparr>,
              db\<lparr>comments := saveLoaded
                    (c\<lparr>Comment.likes := ls,
                       Comment.likesCount := int (length (Comment.likes c))\<rparr>)
                    (comments db)\<rparr>)
         \<and> set ls = set (Comment.likes c) \<and> (u \<notin> set (Comment.likes c) \<longrightarrow> ls = Comment.likes c)"
    using two tw(4,5) by blast
qed

text \<open>
  C7, as amended. For a stored project that passes the validators of its schema and a
  user who occurs at most once in its liker array, two successive toggles by that user
  succeed. The first answers \<open>liked\<close> exactly when the user was not a liker, the second
  the opposite, with \<open>likesCount\<close> equal to the length of the liker array before the first
  toggle. Afterwards the stored project has the liker set and the other paths it had
  before and that length as \<open>likesCount\<close>; when the user was not a liker and the stored
  counter agreed with the array, the whole database is as before. The same holds for a
  stored comment, with the save hook of the Comment model as the specification describes
  it. Both answers are \<open>LikeResponse\<close> records of a boolean and an integer.
\<close>

theorem like_twice_round_trip:
  "(findById i (projects db) = Some p \<and> validate_Project p
      \<and> count_list (Project.likes p) u \<le> 1 \<longrightarrow>
      fst (like_Project u i db)
        = Inr \<lparr>liked = u \<notin> set (Project.likes p),
               likesCount = (if u \<in> set (Project.likes p)
                             then int (length (Project.likes p)) - 1
                             else int (length (Project.likes p)) + 1)\<rparr>
      \<and> fst (like_Project u i (snd (like_Project u i db)))
        = Inr \<lparr>liked = u \<in> set (Project.likes p),
               likesCount = int (length (Project.likes p))\<rparr>
      \<and> (\<exists>p2. findById i (projects (snd (like_Project u i (snd (like_Project u i db)))))
                  = Some p2
             \<and> set (Project.likes p2) = set (Project.likes p)
             \<and> Project.likesCount p2 = int (length (Project.likes p))
             \<and> p2\<lparr>Project.likes := Project.likes p,
                   Project.likesCount := Project.likesCount p\<rparr> = p)
      \<and> (u \<notin> set (Project.likes p)
            \<and> Project.likesCount p = int (length (Project.likes p)) \<longrightarrow>
            snd (like_Project u i (snd (like_Project u i db))) = db))
   \<and> (findById j (comments db) = Some c \<and> count_list (Comment.likes c) u \<le> 1 \<longrightarrow>
      fst (like_Comment u j db)
        = Inr \<lparr>liked = u \<notin> set (Comment.likes c),
               likesCount = (if u \<in> set (Comment.likes c)
                             then int (length (Comment.likes c)) - 1
                             else int (length (Comment.likes c)) + 1)\<rparr>
      \<and> fst (like_Comment u j (snd (like_Comment u j db)))
        = Inr \<lparr>liked = u \<in> set (Comment.likes c),
               likesCount = int (length (Comment.likes c))\<rparr>
      \<and> (\<exists>c2. findById j (comments (snd (like_Comment u j (snd (like_Comment u j db)))))
                  = Some c2
             \<and> set (Comment.likes c2) = set (Comment.likes c)
             \<and> Comment.likesCount c2 = int (length (Comment.likes c))
             \<and> c2\<lparr>Comment.likes := Comment.likes c,
                   Comment.likesCount := Comment.likesCount c\<rparr> = c)
      \<and> (u \<notin> set (Comment.likes c)
            \<and> Comment.likesCount c = int (length (Comment.likes c)) \<longrightarrow>
            snd (like_Comment u j (snd (like_Comment u j db))) = db))"
proof (intro conjI impI)
  assume a: "findById i (projects db) = Some p \<and> validate_Project p
      \<and> count_list (Project.likes p) u \<le> 1"
  then have f: "findById i (projects db) = Some p" and v: "validate_Project p"
    and c: "count_list (Project.likes p) u \<le> 1"
    by simp_all
  note t = like_Project_twice[OF f v c]
  obtain ls where ls: "like_Project u i (snd (like_Project u i db))
           = (Inr \<lparr>liked = u \<in> set (Project.likes p),
                   likesCount = int (length (Project.likes p))\<rparr>,
              db\<lparr>projects := saveLoaded
                    (p\<lparr>Project.likes := ls,
                       Project.likesCount := int (length (Project.likes p))\<rparr>)
                    (projects db)\<rparr>)"
      "set ls = set (Project.likes p)" "u \<notin> set (Project.likes p) \<longrightarrow> ls = Project.likes p"
    using t(2) by blast
  let ?p2 = "p\<lparr>Project.likes := ls, Project.likesCount := int (length (Project.likes p))\<rparr>"
  show "fst (like_Project u i db)
        = Inr \<lparr>liked = u \<notin> set (Project.likes p),
               likesCount = (if u \<in> set (Project.likes p)
                             then int (length (Project.likes p)) - 1
                             else int (length (Project.likes p)) + 1)\<rparr>"
    by (rule t(1))
  show "fst (like_Project u i (snd (like_Project u i db)))
        = Inr \<lparr>liked = u \<in> set (Project.likes p),
               likesCount = int (length (Project.likes p))\<rparr>"
    by (simp add: ls(1))
  have "findById i (projects (snd (like_Project u i (snd (like_Project u i db))))) = Some ?p2"
    using findById_ident[OF f] by (simp add: ls(1) saveLoaded_found[OF f])
  moreover have "set (Project.likes ?p2) = set (Project.likes p)" using ls(2) by simp
  moreover have "Project.likesCount ?p2 = int (length (Project.likes p))" by simp
  moreover have "?p2\<lparr>Project.likes := Project.likes p,
                   Project.likesCount := Project.likesCount p\<rparr> = p" by simp
  ultimately show "\<exists>p2. findById i (projects (snd (like_Project u i (snd (like_Project u i db)))))
                  = Some p2
             \<and> set (Project.likes p2) = set (Project.likes p)
             \<and> Project.likesCount p2 = int (length (Project.likes p))
             \<and> p2\<lparr>Project.likes := Project.likes p,
                   Project.likesCount := Project.likesCount p\<rparr> = p"
    by blast
  assume b: "u \<notin> set (Project.likes p)
            \<and> Project.likesCount p = int (length (Project.likes p))"
  with ls(3) have "?p2 = p" by simp
  then show "snd (like_Project u i (snd (like_Project u i db))) = db"
    by (simp add: ls(1) saveLoaded_same[OF f])
next
  assume a: "findById j (comments db) = Some c \<and> count_list (Comment.likes c) u \<le> 1"
  then have f: "findById j (comments db) = Some c"
    and c: "count_list (Comment.likes c) u \<le> 1"
    by simp_all
  note t = like_Comment_twice[OF f c]
  obtain ls where ls: "like_Comment u j (snd (like_Comment u j db))
           = (Inr \<lparr>liked = u \<in> set (Comment.likes c),
                   likesCount = int (length (Comment.likes c))\<rparr>,
              db\<lparr>comments := saveLoaded
                    (c\<lparr>Comment.likes := ls,
                       Comment.likesCount := int (length (Comment.likes c))\<rparr>)
                    (comments db)\<rparr>)"
      "set ls = set (Comment.likes c)" "u \<notin> set (Comment.likes c) \<longrightarrow> ls = Comment.likes c"
    using t(2) by blast
  let ?c2 = "c\<lparr>Comment.likes := ls, Comment.likesCount := int (length (Comment.likes c))\<rparr>"
  show "fst (like_Comment u j db)
        = Inr \<lparr>liked = u \<notin> set (Comment.likes c),
               likesCount = (if u \<in> set (Comment.likes c)
                             then int (length (Comment.likes c)) - 1
                             else int (length (Comment.likes c)) + 1)\<rparr>"
    by (rule t(1))
  show "fst (like_Comment u j (snd (like_Comment u j db)))
        = Inr \<lparr>liked = u \<in> set (Comment.likes c),
               likesCount = int (length (Comment.likes c))\<rparr>"
    by (simp add: ls(1))
  have "findById j (comments (snd (like_Comment u j (snd (like_Comment u j db))))) = Some ?c2"
    using findById_ident[OF f] by (simp add: ls(1) saveLoaded_found[OF f])
  moreover have "set (Comment.likes ?c2) = set (Comment.likes c)" using ls(2) by simp
  moreover have "Comment.likesCount ?c2 = int (length (Comment.likes c))" by simp
  moreover have "?c2\<lparr>Comment.likes := Comment.likes c,
                   Comment.likesCount := Comment.likesCount c\<rparr> = c" by simp
  ultimately show "\<exists>c2. findById j (comments (snd (like_Comment u j (snd (like_Comment u j db)))))
                  = Some c2
             \<and> set (Comment.likes c2) = set (Comment.likes c)
             \<and> Comment.likesCount c2 = int (length (Comment.likes c))
             \<and> c2\<lparr>Comment.likes := Comment.likes c,
                   Comment.likesCount := Comment.likesCount c\<rparr> = c"
    by blast
  assume b: "u \<notin> set (Comment.likes c)
            \<and> Comment.likesCount c = int (length (Comment.likes c))"
  with ls(3) have "?c2 = c" by simp
  then show "snd (like_Comment u j (snd (like_Comment u j db))) = db"
    by (simp add: ls(1) saveLoaded_same[OF f])
qed

theorem like_twice_round_trip_witness:
  "findById 50 (projects db_A) = Some project_A \<and> validate_Project project_A
   \<and> count_list (Project.likes project_A) 10 \<le> 1 \<and> 10 \<notin> set (Project.likes project_A)
   \<and> Project.likesCount project_A = int (length (Project.likes project_A))
   \<and> fst (like_Project 10 50 db_A) = Inr \<lparr>liked = True, likesCount = 1\<rparr>
   \<and> fst (like_Project 10 50 (snd (like_Project 10 50 db_A))) = Inr \<lparr>liked = False, likesCount = 0\<rparr>
   \<and> snd (like_Project 10 50 (snd (like_Project 10 50 db_A))) = db_A
   \<and> fst (like_Project 10 50 db_liked) = Inr \<lparr>liked = False, likesCount = 0\<rparr>
   \<and> fst (like_Project 10 50 (snd (like_Project 10 50 db_liked))) = Inr \<lparr>liked = True, likesCount = 1\<rparr>
   \<and> fst (like_Comment 10 100 db_R1) = Inr \<lparr>liked = True, likesCount = 1\<rparr>
   \<and> fst (like_Comment 10 100 (snd (like_Comment 10 100 db_R1))) = Inr \<lparr>liked = False, likesCount = 0\<rparr>
   \<and> snd (like_Comment 10 100 (snd (like_Comment 10 100 db_R1))) = db_R1"
proof -
  let ?top = "\<lparr>ident = 100, content = ''first'', author = 11, project = 50,
             parentComment = None, replies = [101], likes = [], likesCount = 0\<rparr>"
  let ?liked = "project_A\<lparr>Project.likes := [10], Project.likesCount := 1\<rparr>"
  have p: "findById 50 (projects db_A) = Some project_A"
    by (simp add: db_A_def project_A_def findById_def findOne_def)
  have pl: "validate_Project project_A" "count_list (Project.likes project_A) 10 \<le> 1"
      "10 \<notin> set (Project.likes project_A)"
      "Project.likesCount project_A = int (length (Project.likes project_A))"
      "length (Project.likes project_A) = 0"
    by (simp_all add: project_A_def validate_Project_def)
  have q: "findById 50 (projects db_liked) = Some ?liked"
    by (simp add: db_liked_def db_A_def project_A_def findById_def findOne_def)
  have ql: "validate_Project ?liked" "count_list (Project.likes ?liked) 10 \<le> 1"
      "10 \<in> set (Project.likes ?liked)" "length (Project.likes ?liked) = 1"
    by (simp_all add: project_A_def validate_Project_def)
  have c: "findById 100 (comments db_R1) = Some ?top"
    by (simp add: db_R1_eq findById_def findOne_def)
  have cl: "count_list (Comment.likes ?top) 10 \<le> 1" "10 \<notin> set (Comment.likes ?top)"
      "Comment.likesCount ?top = int (length (Comment.likes ?top))"
      "length (Comment.likes ?top) = 0"
    by simp_all
  note tp = like_twice_round_trip[of 50 db_A project_A 10 100 ?top, THEN conjunct1, rule_format,
      OF conjI[OF p conjI[OF pl(1) pl(2)]]]
  note tq = like_twice_round_trip[of 50 db_liked ?liked 10 100 ?top, THEN conjunct1, rule_format,
      OF conjI[OF q conjI[OF ql(1) ql(2)]]]
  note tc = like_twice_round_trip[of 50 db_R1 project_A 10 100 ?top, THEN conjunct2, rule_format,
      OF conjI[OF c cl(1)]]
  have p1: "fst (like_Project 10 50 db_A) = Inr \<lparr>liked = True, likesCount = 1\<rparr>"
    using tp[THEN conjunct1] pl(3,5) by simp
  have p2: "fst (like_Project 10 50 (snd (like_Project 10 50 db_A))) = Inr \<lparr>liked = False, likesCount = 0\<rparr>"
    using tp[THEN conjunct2, THEN conjunct1] pl(3,5) by simp
  have p3: "snd (like_Project 10 50 (snd (like_Project 10 50 db_A))) = db_A"
    using tp[THEN conjunct2, THEN conjunct2, THEN conjunct2] pl(3,4) by blast
  have q1: "fst (like_Project 10 50 db_liked) = Inr \<lparr>liked = False, likesCount = 0\<rparr>"
    using tq[THEN conjunct1] ql(3,4) by simp
  have q2: "fst (like_Project 10 50 (snd (like_Project 10 50 db_liked))) = Inr \<lparr>liked = True, likesCount = 1\<rparr>"
    using tq[THEN conjunct2, THEN conjunct1] ql(3,4) by simp
  have c1: "fst (like_Comment 10 100 db_R1) = Inr \<lparr>liked = True, likesCount = 1\<rparr>"
    using tc[THEN conjunct1] by simp
  have c2: "fst (like_Comment 10 100 (snd (like_Comment 10 100 db_R1))) = Inr \<lparr>liked = False, likesCount = 0\<rparr>"
    using tc[THEN conjunct2, THEN conjunct1] by simp
  have c3: "snd (like_Comment 10 100 (snd (like_Comment 10 100 db_R1))) = db_R1"
    using tc[THEN conjunct2, THEN conjunct2, THEN conjunct2] cl(2,3) by blast
  from p pl(1,2,3,4) p1 p2 p3 q1 q2 c1 c2 c3 show ?thesis by blast
qed

text \<open>
  C7 as written fails in four ways. For a user who already likes the project the first
  toggle answers \<open>liked = False\<close>. On a project whose stored counter is 5 over an empty
  liker array the second toggle answers 0, not 5. On a project that fails the validators
  the first toggle answers 500. On a liker array that names the user twice, with counter
  2, the second toggle answers 1.
\<close>

theorem like_twice_counterexample:
  "fst (like_Project 10 50 db_liked) = Inr \<lparr>liked = False, likesCount = 0\<rparr>
   \<and> map Project.likesCount (projects db_stale) = [5]
   \<and> fst (like_Project 10 50 (snd (like_Project 10 50 db_stale)))
        = Inr \<lparr>liked = False, likesCount = 0\<rparr>
   \<and> fst (like_Project 10 50 db_invalid) = Inl ServerError
   \<and> map Project.likes (projects db_twice) = [[10, 10]]
   \<and> map Project.likesCount (projects db_twice) = [2]
   \<and> fst (like_Project 10 50 (snd (like_Project 10 50 db_twice)))
        = Inr \<lparr>liked = True, likesCount = 1\<rparr>"
  by (simp add: db_liked_def db_stale_eq db_invalid_eq db_twice_eq db_A_def project_A_def
      like_Project_def findById_def findOne_def saveLoaded_def findByIdAndUpdate_def
      pre_save_Project_def validate_Project_def Let_def)

section \<open>The comment counter\<close>

text \<open>
  C5, as amended. Whenever the create route succeeds, top-level comment or reply alike,
  the project it names was stored and its \<open>commentsCount\<close> afterwards is the double sum
  of the previous value and one, all its other paths being as before; no other project is
  touched. That sum is the previous value plus one whenever the previous value lies
  between \<open>- 2 ^ 53\<close> and \<open>2 ^ 53 - 1\<close>.
\<close>

theorem create_Comment_increments_commentsCount:
  assumes "create_Comment errors u new_id b_content projectId parentCommentId db = (Inr doc, db')"
  shows "\<exists>p. findById projectId (projects db) = Some p
           \<and> findById projectId (projects db')
               = Some (p\<lparr>commentsCount := inc_Number (commentsCount p) 1\<rparr>)
           \<and> (- (2 ^ 53) \<le> commentsCount p \<and> commentsCount p < 2 ^ 53 \<longrightarrow>
                findById projectId (projects db')
                  = Some (p\<lparr>commentsCount := commentsCount p + 1\<rparr>))
           \<and> (\<forall>j. j \<noteq> projectId \<longrightarrow> findById j (projects db') = findById j (projects db))"
proof -
  obtain p where p: "findById projectId (projects db) = Some p"
    using assms by (auto simp: create_Comment_def split: if_splits option.splits)
  have ps: "projects db' = findByIdAndUpdate projectId
                   (\<lambda>p. p\<lparr>commentsCount := inc_Number (commentsCount p) 1\<rparr>) (projects db)"
    using assms by (auto simp: create_Comment_def Let_def split: if_splits option.splits)
  have a: "findById projectId (projects db')
             = Some (p\<lparr>commentsCount := inc_Number (commentsCount p) 1\<rparr>)"
    unfolding ps using findById_ident[OF p] by (intro findById_update_same[OF p]) simp
  have b: "\<forall>j. j \<noteq> projectId \<longrightarrow> findById j (projects db') = findById j (projects db)"
    unfolding ps by (simp add: findById_update_other)
  have c: "- (2 ^ 53) \<le> commentsCount p \<and> commentsCount p < 2 ^ 53 \<longrightarrow>
                findById projectId (projects db')
                  = Some (p\<lparr>commentsCount := commentsCount p + 1\<rparr>)"
  proof
    assume "- (2 ^ 53) \<le> commentsCount p \<and> commentsCount p < 2 ^ 53"
    then have "inc_Number (commentsCount p) 1 = commentsCount p + 1"
      by (intro inc_Number_one) simp_all
    with a show "findById projectId (projects db')
                  = Some (p\<lparr>commentsCount := commentsCount p + 1\<rparr>)"
      by simp
  qed
  from p a b c show ?thesis by blast
qed

theorem create_Comment_increments_commentsCount_witness:
  "(\<exists>doc. create_Comment [] 12 101 ''reply'' 50 (Some 100) db_C1 = (Inr doc, db_R1))
   \<and> map commentsCount (projects db_C1) = [1] \<and> map commentsCount (projects db_R1) = [2]
   \<and> (\<exists>p. findById 50 (projects db_C1) = Some p
          \<and> - (2 ^ 53) \<le> commentsCount p \<and> commentsCount p < 2 ^ 53
          \<and> findById 50 (projects db_R1) = Some (p\<lparr>commentsCount := commentsCount p + 1\<rparr>))"
proof -
  have run: "create_Comment [] 12 101 ''reply'' 50 (Some 100) db_C1 =
     (Inr \<lparr>ident = 101, content = ''reply'', author = 12, project = 50, parentComment = Some 100,
           replies = [], likes = [], likesCount = 0\<rparr>, db_R1)"
    by (simp add: db_R1_value db_R1_eq)
  have counts: "map commentsCount (projects db_C1) = [1]" "map commentsCount (projects db_R1) = [2]"
    by (simp_all add: db_C1_eq db_R1_eq)
  have f: "findById 50 (projects db_C1) = Some (project_A\<lparr>commentsCount := 1\<rparr>)"
    by (simp add: db_C1_eq project_A_def findById_def findOne_def)
  from create_Comment_increments_commentsCount[OF run] obtain p
    where P: "findById 50 (projects db_C1) = Some p"
      "- (2 ^ 53) \<le> commentsCount p \<and> commentsCount p < 2 ^ 53 \<longrightarrow>
         findById 50 (projects db_R1) = Some (p\<lparr>commentsCount := commentsCount p + 1\<rparr>)"
    by blast
  from P(1) f have pe: "p = project_A\<lparr>commentsCount := 1\<rparr>" by simp
  have r: "- (2 ^ 53) \<le> commentsCount p \<and> commentsCount p < 2 ^ 53"
    unfolding pe by simp
  from P(2) r have "findById 50 (projects db_R1) = Some (p\<lparr>commentsCount := commentsCount p + 1\<rparr>)"
    by blast
  with run counts P(1) r show ?thesis by blast
qed

text \<open>
  C5 as written fails on a project whose \<open>commentsCount\<close> the unvalidated update set to
  \<open>2 ^ 53\<close>: the create succeeds and the count is still \<open>2 ^ 53\<close>.
\<close>

theorem create_Comment_increments_commentsCount_counterexample:
  "map commentsCount (projects db_big) = [2 ^ 53]
   \<and> fst (create_Comment [] 11 100 ''first'' 50 None db_big)
       = Inr \<lparr>ident = 100, content = ''first'', author = 11, project = 50,
              parentComment = None, replies = [], likes = [], likesCount = 0\<rparr>
   \<and> map commentsCount (projects (snd (create_Comment [] 11 100 ''first'' 50 None db_big)))
       = [2 ^ 53]"
  by (simp add: db_big_eq db_A_def project_A_def create_Comment_def findById_def findOne_def
      insertOne_def pre_save_Comment_def findByIdAndUpdate_def inc_Number_2_53 Let_def)

lemma delete_Comment_decrements_by_one:
  assumes "delete_Comment u i db = (Inr m, db')" and "findById i (comments db) = Some c"
  shows "projects db' = findByIdAndUpdate (project c)
           (\<lambda>p. p\<lparr>commentsCount := inc_Number (commentsCount p) (- 1)\<rparr>) (projects db)"
proof -
  have z: "\<And>pc. countDocuments (\<lambda>c. parentComment c = Some i)
        (findByIdAndUpdate pc (\<lambda>c. c\<lparr>replies := filter (\<lambda>r. r \<noteq> i) (replies c)\<rparr>)
           (deleteMany (\<lambda>c. parentComment c = Some i) (comments db))) = 0"
    unfolding findByIdAndUpdate_def by (rule countDocuments_after_deleteMany) simp
  have z0: "countDocuments (\<lambda>c. parentComment c = Some i)
           (deleteMany (\<lambda>c. parentComment c = Some i) (comments db)) = 0"
    by (simp add: countDocuments_def deleteMany_def)
  show ?thesis
    using assms by (auto simp: delete_Comment_def Let_def z z0 split: if_splits option.splits)
qed

text \<open>
  C1. The scenario of the specification, run on the routes: project A holds the top-level
  comment 100 and its one reply 101, and \<open>commentsCount\<close> is 2. Deleting comment 100
  removes both comments, yet \<open>commentsCount\<close> ends at 1, not at 0: the replies are counted
  after \<open>deleteMany\<close> has removed them, so the decrement is 0 + 1.
\<close>

theorem delete_Comment_scenario_count:
  "countDocuments (\<lambda>c. parentComment c = Some 100) (comments db_R1) = 1
   \<and> length (comments db_R1) = 2
   \<and> map commentsCount (projects db_R1) = [2]
   \<and> fst (delete_Comment 11 100 db_R1) = Inr ''Comment deleted successfully''
   \<and> comments (snd (delete_Comment 11 100 db_R1)) = []
   \<and> map commentsCount (projects (snd (delete_Comment 11 100 db_R1))) = [1]"
  by (simp add: db_R1_eq db_A_def project_A_def delete_Comment_def countDocuments_def
      deleteMany_def findById_def findOne_def findByIdAndUpdate_def findByIdAndDelete_def
      inc_Number_exact Let_def)

section \<open>The reply tree\<close>

text \<open>
  C6. A create request whose parent reference names no stored comment always fails and
  returns the database as it was: no comment is inserted, no reply set and no counter
  changes. Once the request has passed validation the failure is a 404 (NotFound), with
  the message of the parent check when the project exists.
\<close>

theorem create_Comment_missing_parent:
  assumes "findById pc (comments db) = None"
  shows "\<exists>e. create_Comment errors u new_id b_content projectId (Some pc) db = (Inl e, db)
           \<and> (errors = [] \<longrightarrow> (\<exists>m. e = NotFound m))
           \<and> (errors = [] \<and> findById projectId (projects db) \<noteq> None \<longrightarrow>
                 e = NotFound ''Parent comment not found'')"
  using assms by (auto simp: create_Comment_def split: option.splits)

theorem create_Comment_missing_parent_witness:
  "findById 999 (comments db_A) = None
   \<and> create_Comment [] 11 100 ''reply'' 50 (Some 999) db_A
       = (Inl (NotFound ''Parent comment not found''), db_A)"
proof -
  have h: "findById 999 (comments db_A) = None"
    by (simp add: db_A_def findById_def findOne_def)
  have p: "findById 50 (projects db_A) \<noteq> None"
    by (simp add: db_A_def project_A_def findById_def findOne_def)
  from create_Comment_missing_parent[OF h, of "[]" 11 100 "''reply''" 50] h p show ?thesis by auto
qed

text \<open>
  C3, as amended. A comment created by the create route carries the parent reference of
  the request; when one was given, the parent was stored at that moment (it need not be
  top-level) and receives the new identifier at the end of its \<open>replies\<close>. When every
  stored reply had a stored top-level parent and the request's parent, if any, is
  top-level, the same holds after the create.
\<close>

theorem create_Comment_parent_stored:
  assumes "create_Comment errors u new_id b_content projectId parentCommentId db = (Inr doc, db')"
  shows "parentComment doc = parentCommentId \<and> ident doc = new_id
       \<and> (\<forall>pc. parentCommentId = Some pc \<longrightarrow>
             (\<exists>q. findById pc (comments db) = Some q
                  \<and> findById pc (comments db') = Some (q\<lparr>replies := replies q @ [new_id]\<rparr>)))
       \<and> (two_levels (comments db)
            \<and> (\<forall>pc q. parentCommentId = Some pc \<and> findById pc (comments db) = Some q
                        \<longrightarrow> parentComment q = None)
            \<longrightarrow> two_levels (comments db'))"
proof -
  note s = create_Comment_success[OF assms]
  have d: "parentComment doc = parentCommentId" "ident doc = new_id"
    by (simp_all add: s(1))
  have par: "\<exists>q. findById pc (comments db) = Some q
                  \<and> findById pc (comments db') = Some (q\<lparr>replies := replies q @ [new_id]\<rparr>)"
    if pc: "parentCommentId = Some pc" for pc
  proof -
    from s(4)[OF pc] obtain q where q: "findById pc (comments db) = Some q" by blast
    have "findById pc (comments db @ [doc]) = Some q" by (rule findById_append[OF q])
    then have "findById pc (comments db') = Some (q\<lparr>replies := replies q @ [new_id]\<rparr>)"
      using findById_ident[OF q] by (simp add: s(3) pc findById_update_same)
    with q show ?thesis by blast
  qed
  have links: "map ident (comments db') = map ident (comments db @ [doc])"
      "map parentComment (comments db') = map parentComment (comments db @ [doc])"
    by (cases parentCommentId; simp add: s(3) update_keeps_links)+
  have two: "two_levels (comments db')"
    if t: "two_levels (comments db)"
      and top: "\<forall>pc q. parentCommentId = Some pc \<and> findById pc (comments db) = Some q
                        \<longrightarrow> parentComment q = None"
  proof -
    have "case parentComment doc of None \<Rightarrow> True
         | Some pc \<Rightarrow> (case findById pc (comments db) of None \<Rightarrow> False
                        | Some q \<Rightarrow> parentComment q = None)"
      using d(1) top s(4) by (auto split: option.splits)
    from two_levels_append[OF t this] show ?thesis
      by (simp add: two_levels_cong[OF links])
  qed
  from d par two show ?thesis by blast
qed

theorem create_Comment_parent_stored_witness:
  "(\<exists>doc. create_Comment [] 12 101 ''reply'' 50 (Some 100) db_C1 = (Inr doc, db_R1)
       \<and> parentComment doc = Some 100)
   \<and> two_levels (comments db_C1)
   \<and> (\<exists>q. findById 100 (comments db_C1) = Some q \<and> parentComment q = None
        \<and> findById 100 (comments db_R1) = Some (q\<lparr>replies := replies q @ [101]\<rparr>))
   \<and> two_levels (comments db_R1)"
proof -
  let ?c = "\<lparr>ident = 100, content = ''first'', author = 11, project = 50,
             parentComment = None, replies = [], likes = [], likesCount = 0\<rparr>"
  have run: "create_Comment [] 12 101 ''reply'' 50 (Some 100) db_C1 =
     (Inr \<lparr>ident = 101, content = ''reply'', author = 12, project = 50, parentComment = Some 100,
           replies = [], likes = [], likesCount = 0\<rparr>, db_R1)"
    by (simp add: db_R1_value db_R1_eq)
  have c: "findById 100 (comments db_C1) = Some ?c"
    by (simp add: db_C1_eq findById_def findOne_def)
  have t: "two_levels (comments db_C1)"
    by (simp add: db_C1_eq two_levels_def)
  have top: "\<forall>pc q. Some 100 = Some pc \<and> findById pc (comments db_C1) = Some q
                        \<longrightarrow> parentComment q = None"
    using c by auto
  note r = create_Comment_parent_stored[OF run]
  have r3: "findById 100 (comments db_R1) = Some (?c\<lparr>replies := replies ?c @ [101]\<rparr>)"
    using r[THEN conjunct2, THEN conjunct2, THEN conjunct1] c by auto
  have r4: "two_levels (comments db_R1)"
    using r[THEN conjunct2, THEN conjunct2, THEN conjunct2] t top by blast
  from run c t r3 r4 show ?thesis by auto
qed

text \<open>
  C3 as written fails: in the scenario, a reply to the reply 101 is accepted. The new
  comment 102 has the parent 101, whose own parent is 100, so the tree has three levels.
\<close>

theorem create_Comment_nesting_counterexample:
  "two_levels (comments db_R1)
   \<and> fst (create_Comment [] 10 102 ''nested'' 50 (Some 101) db_R1)
       = Inr \<lparr>ident = 102, content = ''nested'', author = 10, project = 50,
              parentComment = Some 101, replies = [], likes = [], likesCount = 0\<rparr>
   \<and> map ident (comments (snd (create_Comment [] 10 102 ''nested'' 50 (Some 101) db_R1)))
       = [100, 101, 102]
   \<and> map parentComment (comments (snd (create_Comment [] 10 102 ''nested'' 50 (Some 101) db_R1)))
       = [None, Some 100, Some 101]
   \<and> \<not> two_levels (comments (snd (create_Comment [] 10 102 ''nested'' 50 (Some 101) db_R1)))"
  by (simp add: db_R1_eq db_A_def project_A_def create_Comment_def two_levels_def findById_def
      findOne_def insertOne_def pre_save_Comment_def findByIdAndUpdate_def inc_Number_exact Let_def)

lemma children_after_create:
  assumes "create_Comment errors u new_id b_content projectId (Some i) db = (Inr doc, db')"
  shows "map ident (filter (\<lambda>r. parentComment r = Some i) (comments db'))
           = map ident (filter (\<lambda>r. parentComment r = Some i) (comments db)) @ [new_id]"
proof -
  note s = create_Comment_success[OF assms]
  have links: "map ident (comments db') = map ident (comments db @ [doc])"
      "map parentComment (comments db') = map parentComment (comments db @ [doc])"
    by (simp_all add: s(3) update_keeps_links)
  have "map ident (filter (\<lambda>r. parentComment r = Some i) (comments db'))
          = map ident (filter (\<lambda>r. parentComment r = Some i) (comments db @ [doc]))"
    by (rule links_filter_cong[OF links, of "\<lambda>a b. b = Some i"])
  then show ?thesis by (simp add: s(1))
qed

lemma children_after_delete:
  assumes "findById r (comments db) = Some rep" and "parentComment rep = Some i"
    and "Comment.author rep = u" and "distinct (map ident (comments db))" and "i \<noteq> r"
  shows "delete_Comment u r db =
           (Inr ''Comment deleted successfully'',
            db\<lparr>projects := findByIdAndUpdate (project rep)
                   (\<lambda>p. p\<lparr>commentsCount := inc_Number (commentsCount p) (- 1)\<rparr>) (projects db),
               comments := findByIdAndDelete r
                   (findByIdAndUpdate i (\<lambda>c. c\<lparr>replies := filter (\<lambda>x. x \<noteq> r) (replies c)\<rparr>)
                      (deleteMany (\<lambda>c. parentComment c = Some r) (comments db)))\<rparr>)"
    and "set (map ident (filter (\<lambda>x. parentComment x = Some i) (comments (snd (delete_Comment u r db)))))
           = set (map ident (filter (\<lambda>x. parentComment x = Some i) (comments db))) - {r}"
proof -
  let ?cs1 = "deleteMany (\<lambda>c. parentComment c = Some r) (comments db)"
  let ?cs2 = "findByIdAndUpdate i (\<lambda>c. c\<lparr>replies := filter (\<lambda>x. x \<noteq> r) (replies c)\<rparr>) ?cs1"
  have z: "countDocuments (\<lambda>c. parentComment c = Some r) ?cs2 = 0"
    unfolding findByIdAndUpdate_def by (rule countDocuments_after_deleteMany) simp
  show run: "delete_Comment u r db =
           (Inr ''Comment deleted successfully'',
            db\<lparr>projects := findByIdAndUpdate (project rep)
                   (\<lambda>p. p\<lparr>commentsCount := inc_Number (commentsCount p) (- 1)\<rparr>) (projects db),
               comments := findByIdAndDelete r ?cs2\<rparr>)"
    using assms(1,2,3) by (simp add: delete_Comment_def Let_def z)
  have links: "map ident ?cs2 = map ident ?cs1" "map parentComment ?cs2 = map parentComment ?cs1"
    by (simp_all add: update_keeps_links)
  have "distinct (map ident ?cs1)"
    using assms(4) by (simp add: deleteMany_def distinct_map_filter)
  then have d2: "distinct (map ident ?cs2)" by (simp add: links)
  have "map ident (filter (\<lambda>x. parentComment x = Some i) (findByIdAndDelete r ?cs2))
          = map ident (filter (\<lambda>x. ident x \<noteq> r \<and> parentComment x = Some i) ?cs2)"
    by (simp add: deleteOne_distinct[OF d2] conj_commute)
  also have "\<dots> = map ident (filter (\<lambda>x. ident x \<noteq> r \<and> parentComment x = Some i) ?cs1)"
    by (rule links_filter_cong[OF links, of "\<lambda>a b. a \<noteq> r \<and> b = Some i"])
  finally have "set (map ident (filter (\<lambda>x. parentComment x = Some i) (findByIdAndDelete r ?cs2)))
          = set (map ident (filter (\<lambda>x. parentComment x = Some i) (comments db))) - {r}"
    using assms(5) by (auto simp: deleteMany_def)
  then show "set (map ident (filter (\<lambda>x. parentComment x = Some i) (comments (snd (delete_Comment u r db)))))
           = set (map ident (filter (\<lambda>x. parentComment x = Some i) (comments db))) - {r}"
    by (simp add: run)
qed

text \<open>
  C4, as amended. Creating a reply to a stored comment \<open>i\<close> appends the new identifier to
  the \<open>replies\<close> of \<open>i\<close>, and deleting a reply \<open>r\<close> of a top-level comment \<open>i\<close> (by the
  reply's author, identifiers being unique in the collection) removes \<open>r\<close> from the
  \<open>replies\<close> of \<open>i\<close> and from the collection. When the reply set of \<open>i\<close> held exactly the
  comments whose parent reference is \<open>i\<close> before the operation, it holds exactly those
  afterwards. The two operations keep the reply set in step; they do not bring it back in
  step.
\<close>

theorem replies_stay_synchronised:
  "(create_Comment errors u new_id b_content projectId (Some i) db = (Inr doc, db')
      \<and> findById i (comments db) = Some c \<and> replies_synchronised i (comments db) \<longrightarrow>
        findById i (comments db') = Some (c\<lparr>replies := replies c @ [new_id]\<rparr>)
        \<and> replies_synchronised i (comments db'))
   \<and> (distinct (map ident (comments db)) \<and> findById i (comments db) = Some c
        \<and> parentComment c = None \<and> findById r (comments db) = Some rep
        \<and> parentComment rep = Some i \<and> Comment.author rep = u
        \<and> replies_synchronised i (comments db) \<longrightarrow>
        fst (delete_Comment u r db) = Inr ''Comment deleted successfully''
        \<and> findById i (comments (snd (delete_Comment u r db)))
             = Some (c\<lparr>replies := filter (\<lambda>x. x \<noteq> r) (replies c)\<rparr>)
        \<and> findById r (comments (snd (delete_Comment u r db))) = None
        \<and> replies_synchronised i (comments (snd (delete_Comment u r db))))"
proof (intro conjI impI)
  assume a: "create_Comment errors u new_id b_content projectId (Some i) db = (Inr doc, db')
      \<and> findById i (comments db) = Some c \<and> replies_synchronised i (comments db)"
  then have run: "create_Comment errors u new_id b_content projectId (Some i) db = (Inr doc, db')"
    and c: "findById i (comments db) = Some c" and sync: "replies_synchronised i (comments db)"
    by simp_all
  note s = create_Comment_success[OF run]
  have "findById i (comments db @ [doc]) = Some c" by (rule findById_append[OF c])
  then show f: "findById i (comments db') = Some (c\<lparr>replies := replies c @ [new_id]\<rparr>)"
    using findById_ident[OF c] by (simp add: s(3) findById_update_same)
  from sync c have "set (replies c)
      = set (map ident (filter (\<lambda>r. parentComment r = Some i) (comments db)))"
    by (simp add: replies_synchronised_def)
  then show "replies_synchronised i (comments db')"
    by (simp add: replies_synchronised_def f children_after_create[OF run])
next
  assume a: "distinct (map ident (comments db)) \<and> findById i (comments db) = Some c
        \<and> parentComment c = None \<and> findById r (comments db) = Some rep
        \<and> parentComment rep = Some i \<and> Comment.author rep = u
        \<and> replies_synchronised i (comments db)"
  then have dist: "distinct (map ident (comments db))" and c: "findById i (comments db) = Some c"
    and top: "parentComment c = None" and rep: "findById r (comments db) = Some rep"
    and par: "parentComment rep = Some i" and au: "Comment.author rep = u"
    and sync: "replies_synchronised i (comments db)"
    by simp_all
  have ne: "i \<noteq> r" using c rep top par by auto
  note del = children_after_delete[OF rep par au dist ne]
  let ?cs1 = "deleteMany (\<lambda>c. parentComment c = Some r) (comments db)"
  let ?g = "\<lambda>c::Comment. c\<lparr>replies := filter (\<lambda>x. x \<noteq> r) (replies c)\<rparr>"
  let ?cs2 = "findByIdAndUpdate i ?g ?cs1"
  show "fst (delete_Comment u r db) = Inr ''Comment deleted successfully''"
    by (simp add: del(1))
  have c1: "findById i ?cs1 = Some c"
    unfolding deleteMany_def using top by (intro findById_filter[OF c]) simp
  have c2: "findById i ?cs2 = Some (?g c)"
    using findById_ident[OF c] by (intro findById_update_same[OF c1]) simp
  show f: "findById i (comments (snd (delete_Comment u r db))) = Some (?g c)"
    using ne c2 by (simp add: del(1) findById_delete_other)
  have links: "map ident ?cs2 = map ident ?cs1"
    by (simp add: update_keeps_links)
  have "distinct (map ident ?cs1)"
    using dist by (simp add: deleteMany_def distinct_map_filter)
  then have d2: "distinct (map ident ?cs2)" by (simp add: links)
  show "findById r (comments (snd (delete_Comment u r db))) = None"
    by (auto simp: del(1) deleteOne_distinct[OF d2] findById_None_iff)
  from sync c have "set (replies c)
      = set (map ident (filter (\<lambda>r. parentComment r = Some i) (comments db)))"
    by (simp add: replies_synchronised_def)
  then show "replies_synchronised i (comments (snd (delete_Comment u r db)))"
    using del(2) by (auto simp: replies_synchronised_def f)
qed

theorem replies_stay_synchronised_witness:
  "replies_synchronised 100 (comments db_C1)
   \<and> (\<exists>doc. create_Comment [] 12 101 ''reply'' 50 (Some 100) db_C1 = (Inr doc, db_R1))
   \<and> map replies (comments db_R1) = [[101], []]
   \<and> replies_synchronised 100 (comments db_R1)
   \<and> distinct (map ident (comments db_R1))
   \<and> fst (delete_Comment 12 101 db_R1) = Inr ''Comment deleted successfully''
   \<and> findById 101 (comments (snd (delete_Comment 12 101 db_R1))) = None
   \<and> replies_synchronised 100 (comments (snd (delete_Comment 12 101 db_R1)))"
proof -
  let ?top = "\<lparr>ident = 100, content = ''first'', author = 11, project = 50,
             parentComment = None, replies = [], likes = [], likesCount = 0\<rparr>"
  let ?par = "\<lparr>ident = 100, content = ''first'', author = 11, project = 50,
             parentComment = None, replies = [101], likes = [], likesCount = 0\<rparr>"
  let ?r = "\<lparr>ident = 101, content = ''reply'', author = 12, project = 50,
             parentComment = Some 100, replies = [], likes = [], likesCount = 0\<rparr>"
  have run: "create_Comment [] 12 101 ''reply'' 50 (Some 100) db_C1 = (Inr ?r, db_R1)"
    by (simp add: db_R1_value db_R1_eq)
  have c0: "findById 100 (comments db_C1) = Some ?top"
    by (simp add: db_C1_eq findById_def findOne_def)
  have s0: "replies_synchronised 100 (comments db_C1)"
    by (simp add: db_C1_eq replies_synchronised_def findById_def findOne_def)
  have s1: "replies_synchronised 100 (comments db_R1)"
    using replies_stay_synchronised[of "[]" 12 101 "''reply''" 50 100 db_C1 ?r db_R1 ?top,
        THEN conjunct1] run c0 s0 by blast
  have c: "findById 100 (comments db_R1) = Some ?par" "findById 101 (comments db_R1) = Some ?r"
    "distinct (map ident (comments db_R1))" "map replies (comments db_R1) = [[101], []]"
    by (simp_all add: db_R1_eq findById_def findOne_def)
  have p: "parentComment ?par = None" "parentComment ?r = Some 100" "Comment.author ?r = 12"
    by simp_all
  note d = replies_stay_synchronised[of _ 12 _ _ _ 100 db_R1 _ _ ?par 101 ?r, THEN conjunct2,
      rule_format, OF conjI[OF c(3) conjI[OF c(1) conjI[OF p(1) conjI[OF c(2) conjI[OF p(2)
        conjI[OF p(3) s1]]]]]]]
  from s0 run c(3,4) s1 d show ?thesis by blast
qed

text \<open>
  C4 as written fails after a project delete: reply 101 to comment 100 is filed under
  project B, project B is deleted with its comments, and a new reply 102 to comment 100 is
  created. Comment 100 then lists 101 and 102 as replies, while only 102 names it as
  parent.
\<close>

theorem replies_stay_synchronised_counterexample:
  "fst (create_Comment [] 12 101 ''reply'' 60 (Some 100) db_AB_C1)
       = Inr \<lparr>ident = 101, content = ''reply'', author = 12, project = 60,
              parentComment = Some 100, replies = [], likes = [], likesCount = 0\<rparr>
   \<and> fst (delete_Project 10 60 db_AB_R1) = Inr ''Project deleted successfully''
   \<and> fst (create_Comment [] 12 102 ''again'' 50 (Some 100) db_AB_deleted)
       = Inr \<lparr>ident = 102, content = ''again'', author = 12, project = 50,
              parentComment = Some 100, replies = [], likes = [], likesCount = 0\<rparr>
   \<and> map ident (comments db_AB_R2) = [100, 102]
   \<and> map parentComment (comments db_AB_R2) = [None, Some 100]
   \<and> map replies (comments db_AB_R2) = [[101, 102], []]
   \<and> \<not> replies_synchronised 100 (comments db_AB_R2)"
  by (simp add: db_AB_R2_eq db_AB_deleted_eq db_AB_R1_eq db_AB_C1_eq project_B_def
      create_Comment_def delete_Project_def db_A_def project_A_def replies_synchronised_def
      findById_def findOne_def insertOne_def pre_save_Comment_def findByIdAndUpdate_def
      inc_Number_exact Let_def)

section \<open>Refusals and frames\<close>

text \<open>
  C8. A validated profile update that changes the username to one held by another account
  answers with the taken-username failure (the Conflict of the specification) and returns
  the database unchanged, so nothing was written. When the submitted username is the
  caller's current one the check is skipped and the update is carried out, whoever else
  holds that name.
\<close>

theorem update_profile_username_taken:
  assumes "x \<in> set (users db)" and "username x = n" and "ident x \<noteq> ident req_user"
    and "n \<noteq> username req_user" and "n \<noteq> []"
  shows "update_profile [] req_user (Some n) b_bio b_avatar b_githubProfile b_portfolio db
           = (Inl UsernameTaken, db)
       \<and> (\<exists>r db'. update_profile [] req_user (Some (username req_user)) b_bio b_avatar
                      b_githubProfile b_portfolio db = (Inr r, db'))"
proof -
  have "find (\<lambda>y. username y = n) (users db) \<noteq> None"
    using assms(1,2) by (auto simp: find_None_iff)
  then show ?thesis
    using assms(4,5) by (auto simp: update_profile_def findOne_def Let_def)
qed

theorem update_profile_username_taken_witness:
  "user_of 11 ''ben'' \<in> set (users db_A) \<and> username (user_of 11 ''ben'') = ''ben''
   \<and> ident (user_of 11 ''ben'') \<noteq> ident (user_of 10 ''ana'')
   \<and> ''ben'' \<noteq> username (user_of 10 ''ana'') \<and> ''ben'' \<noteq> []
   \<and> update_profile [] (user_of 10 ''ana'') (Some ''ben'') None None None None db_A
        = (Inl UsernameTaken, db_A)
   \<and> (\<exists>r db'. update_profile [] (user_of 10 ''ana'') (Some (username (user_of 10 ''ana'')))
                  None None None None db_A = (Inr r, db'))"
proof -
  have h: "user_of 11 ''ben'' \<in> set (users db_A)" "username (user_of 11 ''ben'') = ''ben''"
    "ident (user_of 11 ''ben'') \<noteq> ident (user_of 10 ''ana'')"
    "''ben'' \<noteq> username (user_of 10 ''ana'')" "''ben'' \<noteq> []"
    by (simp_all add: db_A_def user_of_def)
  from update_profile_username_taken[OF h, of None None None None] h show ?thesis by blast
qed

text \<open>
  C9. Update and delete of a stored project, and (validated) update and delete of a stored
  comment, by a caller who is not its author fail with the 403 NotAuthorized failure and
  return the database unchanged; that failure and its status differ from every NotFound.
\<close>

theorem non_author_is_refused:
  "(findById i (projects db) = Some p \<and> Project.author p \<noteq> u \<longrightarrow>
      update_Project u i updateData db = (Inl NotAuthorized, db)
      \<and> delete_Project u i db = (Inl NotAuthorized, db))
   \<and> (findById j (comments db) = Some c \<and> Comment.author c \<noteq> u \<longrightarrow>
      update_Comment [] u j b_content db = (Inl NotAuthorized, db)
      \<and> delete_Comment u j db = (Inl NotAuthorized, db))
   \<and> NotAuthorized \<noteq> NotFound m \<and> status NotAuthorized \<noteq> status (NotFound m)"
  by (simp add: update_Project_def delete_Project_def update_Comment_def delete_Comment_def)

theorem non_author_is_refused_witness:
  "findById 50 (projects db_R1) = Some (project_A\<lparr>commentsCount := 2\<rparr>)
   \<and> Project.author (project_A\<lparr>commentsCount := 2\<rparr>) \<noteq> 12
   \<and> update_Project 12 50 (\<lambda>p. p\<lparr>title := ''B''\<rparr>) db_R1 = (Inl NotAuthorized, db_R1)
   \<and> delete_Project 12 50 db_R1 = (Inl NotAuthorized, db_R1)
   \<and> (\<exists>c. findById 100 (comments db_R1) = Some c \<and> Comment.author c \<noteq> 12)
   \<and> update_Comment [] 12 100 ''mine'' db_R1 = (Inl NotAuthorized, db_R1)
   \<and> delete_Comment 12 100 db_R1 = (Inl NotAuthorized, db_R1)"
proof -
  have p: "findById 50 (projects db_R1) = Some (project_A\<lparr>commentsCount := 2\<rparr>)"
    "Project.author (project_A\<lparr>commentsCount := 2\<rparr>) \<noteq> 12"
    by (simp_all add: db_R1_eq project_A_def findById_def findOne_def)
  have c: "findById 100 (comments db_R1) =
      Some \<lparr>ident = 100, content = ''first'', author = 11, project = 50,
             parentComment = None, replies = [101], likes = [], likesCount = 0\<rparr>"
    by (simp add: db_R1_eq findById_def findOne_def)
  let ?c = "\<lparr>ident = 100, content = ''first'', author = 11, project = 50,
             parentComment = None, replies = [101], likes = [], likesCount = 0\<rparr>"
  have a: "Comment.author ?c \<noteq> 12" by simp
  note t = non_author_is_refused[of 50 db_R1 "project_A\<lparr>commentsCount := 2\<rparr>" 12
        "\<lambda>p. p\<lparr>title := ''B''\<rparr>" 100 ?c "''mine''"]
  have t1: "update_Project 12 50 (\<lambda>p. p\<lparr>title := ''B''\<rparr>) db_R1 = (Inl NotAuthorized, db_R1)
      \<and> delete_Project 12 50 db_R1 = (Inl NotAuthorized, db_R1)"
    using t p by blast
  have t2: "update_Comment [] 12 100 ''mine'' db_R1 = (Inl NotAuthorized, db_R1)
      \<and> delete_Comment 12 100 db_R1 = (Inl NotAuthorized, db_R1)"
    using t c a by blast
  from p c a t1 t2 show ?thesis by simp
qed

text \<open>
  C10. A validated content update of a stored comment by its author succeeds; the stored
  comment then has the new content and the same identifier, author, project, parent
  reference, reply array and liker array; the projects (with their \<open>commentsCount\<close>) and
  the users are untouched, and so is every other comment.
\<close>

theorem update_Comment_frame:
  assumes "findById i (comments db) = Some c" and "Comment.author c = u"
  shows "\<exists>c' db'. update_Comment [] u i b_content db = (Inr c', db')
           \<and> findById i (comments db') = Some c'
           \<and> content c' = b_content
           \<and> ident c' = ident c \<and> Comment.author c' = Comment.author c \<and> project c' = project c
           \<and> parentComment c' = parentComment c \<and> replies c' = replies c
           \<and> Comment.likes c' = Comment.likes c
           \<and> projects db' = projects db \<and> users db' = users db
           \<and> map ident (comments db') = map ident (comments db)
           \<and> (\<forall>k. k \<noteq> i \<longrightarrow> findById k (comments db') = findById k (comments db))"
proof -
  let ?c' = "pre_save_Comment (c\<lparr>content := b_content\<rparr>)"
  let ?db' = "db\<lparr>comments := saveLoaded ?c' (comments db)\<rparr>"
  have id: "ident ?c' = i"
    using findById_ident[OF assms(1)] by (simp add: pre_save_Comment_def)
  have run: "update_Comment [] u i b_content db = (Inr ?c', ?db')"
    using assms by (simp add: update_Comment_def Let_def)
  have found: "findById i (comments ?db') = Some ?c'"
    using saveLoaded_found[OF assms(1) id] by simp
  have others: "\<forall>k. k \<noteq> i \<longrightarrow> findById k (comments ?db') = findById k (comments db)"
    using id by (simp add: saveLoaded_other)
  have ids: "map ident (comments ?db') = map ident (comments db)"
    unfolding saveLoaded_def findByIdAndUpdate_def
    by (simp, rule map_updateOne) simp
  show ?thesis
    apply (rule exI[of _ ?c'], rule exI[of _ ?db'])
    using run found others ids findById_ident[OF assms(1)] by (simp add: pre_save_Comment_def)
qed

theorem update_Comment_frame_witness:
  "(\<exists>c. findById 100 (comments db_R1) = Some c \<and> Comment.author c = 11 \<and> replies c = [101])
   \<and> (\<exists>c' db'. update_Comment [] 11 100 ''edited'' db_R1 = (Inr c', db')
         \<and> findById 100 (comments db') = Some c' \<and> content c' = ''edited''
         \<and> Comment.author c' = 11 \<and> replies c' = [101] \<and> projects db' = projects db_R1
         \<and> findById 101 (comments db') = findById 101 (comments db_R1))"
proof -
  have c: "findById 100 (comments db_R1) =
      Some \<lparr>ident = 100, content = ''first'', author = 11, project = 50,
             parentComment = None, replies = [101], likes = [], likesCount = 0\<rparr>"
    by (simp add: db_R1_eq findById_def findOne_def)
  let ?c = "\<lparr>ident = 100, content = ''first'', author = 11, project = 50,
             parentComment = None, replies = [101], likes = [], likesCount = 0\<rparr>"
  have a: "Comment.author ?c = 11" by simp
  from update_Comment_frame[OF c a, of "''edited''"]
  obtain c' db' where r: "update_Comment [] 11 100 ''edited'' db_R1 = (Inr c', db')"
      "findById 100 (comments db') = Some c'" "content c' = ''edited''"
      "Comment.author c' = Comment.author ?c" "replies c' = replies ?c"
      "projects db' = projects db_R1"
      "\<forall>k. k \<noteq> 100 \<longrightarrow> findById k (comments db') = findById k (comments db_R1)"
    by blast
  from r(7) have o: "findById 101 (comments db') = findById 101 (comments db_R1)" by simp
  from r(4,5) have f: "Comment.author c' = 11" "replies c' = [101]" by simp_all
  from c r(1,2,3,6) o f show ?thesis by auto
qed

end
